theory Spec2Isabelle
  imports Complex_Main "HOL-Library.Word" "HOL-Library.Monad_Syntax"
begin

section \<open>Annotation compositing (Viewport::_drawAnnotations, Viewport::_drawAnnotationsGL2)\<close>

text \<open>
  Conventions of the embedding.
  \<^item> A C++ \<open>float\<close> is modelled by the rational number it denotes; rounding is not modelled.
    The test \<open>alphamult == 0.F\<close> is unaffected: for a \<open>short\<close> count \<open>g\<close> and
    \<open>1 \<le> i < g\<close> the quotient \<open>i / g\<close> is at most \<open>1 - 1/32767\<close>, far from \<open>1\<close> in
    single precision.
  \<^item> \<open>int64_t\<close> frame numbers are mathematical integers (signed overflow of \<open>frame - i\<close>
    is undefined behaviour in the source and outside the model).
  \<^item> \<open>p.ghostPrevious\<close> and \<open>p.ghostNext\<close> are \<open>short\<close> values; the narrowing
    initialisation \<open>short i = p.ghostPrevious - 1\<close> is \<open>to_short\<close>.
  \<^item> Mutation of a shape through its pointer is explicit state passing: every function
    returns the shapes as they are left behind, together with the list of
    \<open>shape->draw( gl.render )\<close> calls in the order they were issued. A draw call is
    recorded as the state of the shape at the moment of the call.
\<close>

datatype shape_class = GLPathShape | GLTextShape string | GL2TextShape

record ('g, 'm, 'v) shape =
  shape_class :: shape_class
  geometry :: 'g
  color_a :: rat
  matrix :: 'm
  text_view :: 'v

record ('g, 'm, 'v) annotation =
  frame :: int
  allFrames :: bool
  shapes :: "('g, 'm, 'v) shape list"

text \<open>
  What the two functions read from the viewport besides the annotations: the build flag
  \<open>USE_OPENGL2\<close>, the matrix computed for a \<open>GLTextShape\<close> from \<open>p.viewPos\<close>,
  \<open>p.viewZoom\<close> and the viewport size, the matrix computed in \<open>_drawAnnotationsGL2\<close>,
  and the values copied into a \<open>GL2TextShape\<close> (\<open>pixels_per_unit\<close>, \<open>w\<close>, \<open>h\<close>,
  \<open>viewZoom\<close>).
\<close>

record ('m, 'v) view =
  use_opengl2 :: bool
  text_mvp :: 'm
  gl2_mvp :: 'm
  gl2_text_view :: 'v

definition to_short :: "int \<Rightarrow> int" where
  "to_short x = (x + 32768) mod 65536 - 32768"


text \<open>\<open>for ( short i = p.ghostPrevious-1; i > 0; --i )\<close> with its \<open>break\<close>.\<close>

function scan_previous :: "int \<Rightarrow> int \<Rightarrow> int \<Rightarrow> int \<Rightarrow> rat option" where
  "scan_previous currentFrame annotationFrame ghostPrevious i =
     (if i > 0 then
        (if currentFrame - i = annotationFrame
         then Some (1 - of_int i / of_int ghostPrevious)
         else scan_previous currentFrame annotationFrame ghostPrevious (i - 1))
      else None)"
  by pat_completeness auto
termination
  by (relation "measure (\<lambda>(f, a, g, i). nat i)") auto

text \<open>\<open>for ( short i = 1; i < p.ghostNext; ++i )\<close> with its \<open>break\<close>.\<close>

function scan_next :: "int \<Rightarrow> int \<Rightarrow> int \<Rightarrow> int \<Rightarrow> rat option" where
  "scan_next currentFrame annotationFrame ghostNext i =
     (if i < ghostNext then
        (if currentFrame + i = annotationFrame
         then Some (1 - of_int i / of_int ghostNext)
         else scan_next currentFrame annotationFrame ghostNext (i + 1))
      else None)"
  by pat_completeness auto
termination
  by (relation "measure (\<lambda>(f, a, g, i). nat (g - i))") auto

declare scan_previous.simps [simp del] scan_next.simps [simp del]

definition alphamult :: "int \<Rightarrow> int \<Rightarrow> int \<Rightarrow> ('g, 'm, 'v) annotation \<Rightarrow> rat" where
  "alphamult currentFrame ghostPrevious ghostNext annotation =
     (let annotationFrame = frame annotation in
      if currentFrame = annotationFrame \<or> allFrames annotation then 1
      else
        let a0 = 0;
            a1 = (if ghostPrevious \<noteq> 0
                  then (case scan_previous currentFrame annotationFrame ghostPrevious
                               (to_short (ghostPrevious - 1)) of
                          Some a \<Rightarrow> a | None \<Rightarrow> a0)
                  else a0);
            a2 = (if ghostNext \<noteq> 0
                  then (case scan_next currentFrame annotationFrame ghostNext 1 of
                          Some a \<Rightarrow> a | None \<Rightarrow> a1)
                  else a1)
        in a2)"

definition is_GL2TextShape :: "('g, 'm, 'v) shape \<Rightarrow> bool" where
  "is_GL2TextShape s = (shape_class s = GL2TextShape)"

definition is_nonempty_GLTextShape :: "('g, 'm, 'v) shape \<Rightarrow> bool" where
  "is_nonempty_GLTextShape s =
     (case shape_class s of GLTextShape t \<Rightarrow> t \<noteq> [] | _ \<Rightarrow> False)"

text \<open>
  The shape loop of \<open>_drawAnnotations\<close>, applied to the shapes in the order the reverse
  iterator visits them. Result: the matrix \<open>mvp\<close> (a reference parameter, overwritten for
  text shapes when \<open>USE_OPENGL2\<close> is not defined), the draw calls, the visited shapes as
  left behind.
\<close>

fun draw_shapes ::
  "('m, 'v) view \<Rightarrow> rat \<Rightarrow> 'm \<Rightarrow> ('g, 'm, 'v) shape list
     \<Rightarrow> 'm \<times> ('g, 'm, 'v) shape list \<times> ('g, 'm, 'v) shape list" where
  "draw_shapes v am mvp [] = (mvp, [], [])"
| "draw_shapes v am mvp (shape # rest) =
     (if use_opengl2 v \<and> is_GL2TextShape shape then
        (case draw_shapes v am mvp rest of
           (mvp', calls, rest') \<Rightarrow> (mvp', calls, shape # rest'))
      else
        (let mvp1 = (if \<not> use_opengl2 v \<and> is_nonempty_GLTextShape shape
                     then text_mvp v else mvp);
             a = color_a shape;
             s1 = shape\<lparr>color_a := color_a shape * am\<rparr>;
             s2 = s1\<lparr>matrix := mvp1\<rparr>;
             s3 = s2\<lparr>color_a := a\<rparr>
         in case draw_shapes v am mvp1 rest of
              (mvp', calls, rest') \<Rightarrow> (mvp', s2 # calls, s3 # rest')))"

text \<open>One iteration of \<open>for ( const auto& annotation : annotations )\<close> in \<open>_drawAnnotations\<close>.\<close>

definition drawAnnotation ::
  "('m, 'v) view \<Rightarrow> int \<Rightarrow> int \<Rightarrow> int \<Rightarrow> 'm \<Rightarrow> ('g, 'm, 'v) annotation
     \<Rightarrow> 'm \<times> ('g, 'm, 'v) shape list \<times> ('g, 'm, 'v) annotation" where
  "drawAnnotation v currentFrame ghostPrevious ghostNext mvp annotation =
     (let am = alphamult currentFrame ghostPrevious ghostNext annotation in
      if am = 0 then (mvp, [], annotation)
      else
        (case draw_shapes v am mvp (rev (shapes annotation)) of
           (mvp', calls, visited) \<Rightarrow> (mvp', calls, annotation\<lparr>shapes := rev visited\<rparr>)))"

fun drawAnnotations_loop ::
  "('m, 'v) view \<Rightarrow> int \<Rightarrow> int \<Rightarrow> int \<Rightarrow> 'm \<Rightarrow> ('g, 'm, 'v) annotation list
     \<Rightarrow> 'm \<times> ('g, 'm, 'v) shape list \<times> ('g, 'm, 'v) annotation list" where
  "drawAnnotations_loop v currentFrame ghostPrevious ghostNext mvp [] = (mvp, [], [])"
| "drawAnnotations_loop v currentFrame ghostPrevious ghostNext mvp (annotation # rest) =
     (case drawAnnotation v currentFrame ghostPrevious ghostNext mvp annotation of
        (mvp1, calls1, annotation') \<Rightarrow>
          (case drawAnnotations_loop v currentFrame ghostPrevious ghostNext mvp1 rest of
             (mvp2, calls2, rest') \<Rightarrow> (mvp2, calls1 @ calls2, annotation' # rest')))"

text \<open>
  The timeline player as the two functions see it: \<open>player->currentTime().value()\<close> and
  the list returned by \<open>player->getAnnotations( p.ghostPrevious, p.ghostNext )\<close>.
  No player: both functions return at once.
\<close>

record ('g, 'm, 'v) player =
  currentTime :: int
  getAnnotations :: "('g, 'm, 'v) annotation list"

definition drawAnnotations ::
  "('m, 'v) view \<Rightarrow> int \<Rightarrow> int \<Rightarrow> 'm \<Rightarrow> ('g, 'm, 'v) player option
     \<Rightarrow> 'm \<times> ('g, 'm, 'v) shape list \<times> ('g, 'm, 'v) player option" where
  "drawAnnotations v ghostPrevious ghostNext mvp player =
     (case player of
        None \<Rightarrow> (mvp, [], None)
      | Some pl \<Rightarrow>
          (case drawAnnotations_loop v (currentTime pl) ghostPrevious ghostNext mvp
                  (getAnnotations pl) of
             (mvp', calls, annotations') \<Rightarrow>
               (mvp', calls, Some (pl\<lparr>getAnnotations := annotations'\<rparr>))))"

text \<open>
  The shape loop of \<open>_drawAnnotationsGL2\<close>: \<open>for ( auto& shape : shapes )\<close>, in stored
  order, only the \<open>GL2TextShape\<close>s.
\<close>

fun draw_shapesGL2 ::
  "('m, 'v) view \<Rightarrow> rat \<Rightarrow> ('g, 'm, 'v) shape list
     \<Rightarrow> ('g, 'm, 'v) shape list \<times> ('g, 'm, 'v) shape list" where
  "draw_shapesGL2 v am [] = ([], [])"
| "draw_shapesGL2 v am (shape # rest) =
     (if \<not> is_GL2TextShape shape then
        (case draw_shapesGL2 v am rest of
           (calls, rest') \<Rightarrow> (calls, shape # rest'))
      else
        (let a = color_a shape;
             s1 = shape\<lparr>color_a := color_a shape * am\<rparr>;
             s2 = s1\<lparr>text_view := gl2_text_view v\<rparr>;
             s3 = s2\<lparr>matrix := gl2_mvp v\<rparr>;
             s4 = s3\<lparr>color_a := a\<rparr>
         in case draw_shapesGL2 v am rest of
              (calls, rest') \<Rightarrow> (s3 # calls, s4 # rest')))"

definition drawAnnotationGL2 ::
  "('m, 'v) view \<Rightarrow> int \<Rightarrow> int \<Rightarrow> int \<Rightarrow> ('g, 'm, 'v) annotation
     \<Rightarrow> ('g, 'm, 'v) shape list \<times> ('g, 'm, 'v) annotation" where
  "drawAnnotationGL2 v currentFrame ghostPrevious ghostNext annotation =
     (let am = alphamult currentFrame ghostPrevious ghostNext annotation in
      if am = 0 then ([], annotation)
      else
        (case draw_shapesGL2 v am (shapes annotation) of
           (calls, visited) \<Rightarrow> (calls, annotation\<lparr>shapes := visited\<rparr>)))"

fun drawAnnotationsGL2_loop ::
  "('m, 'v) view \<Rightarrow> int \<Rightarrow> int \<Rightarrow> int \<Rightarrow> ('g, 'm, 'v) annotation list
     \<Rightarrow> ('g, 'm, 'v) shape list \<times> ('g, 'm, 'v) annotation list" where
  "drawAnnotationsGL2_loop v currentFrame ghostPrevious ghostNext [] = ([], [])"
| "drawAnnotationsGL2_loop v currentFrame ghostPrevious ghostNext (annotation # rest) =
     (case drawAnnotationGL2 v currentFrame ghostPrevious ghostNext annotation of
        (calls1, annotation') \<Rightarrow>
          (case drawAnnotationsGL2_loop v currentFrame ghostPrevious ghostNext rest of
             (calls2, rest') \<Rightarrow> (calls1 @ calls2, annotation' # rest')))"

definition drawAnnotationsGL2 ::
  "('m, 'v) view \<Rightarrow> int \<Rightarrow> int \<Rightarrow> ('g, 'm, 'v) player option
     \<Rightarrow> ('g, 'm, 'v) shape list \<times> ('g, 'm, 'v) player option" where
  "drawAnnotationsGL2 v ghostPrevious ghostNext player =
     (case player of
        None \<Rightarrow> ([], None)
      | Some pl \<Rightarrow>
          (case drawAnnotationsGL2_loop v (currentTime pl) ghostPrevious ghostNext
                  (getAnnotations pl) of
             (calls, annotations') \<Rightarrow> (calls, Some (pl\<lparr>getAnnotations := annotations'\<rparr>))))"

text \<open>
  The annotation part of \<open>Viewport::draw\<close>: \<open>if ( p.showAnnotations ) _drawAnnotations(mvp)\<close>,
  reached when the offscreen buffer and the vertex objects exist (\<open>buffer_ready\<close>), and,
  only when \<open>USE_OPENGL2\<close> is defined, \<open>if ( p.showAnnotations ) _drawAnnotationsGL2()\<close>
  later in the same frame.
\<close>

definition draw_annotations ::
  "('m, 'v) view \<Rightarrow> bool \<Rightarrow> bool \<Rightarrow> int \<Rightarrow> int \<Rightarrow> 'm \<Rightarrow> ('g, 'm, 'v) player option
     \<Rightarrow> ('g, 'm, 'v) shape list \<times> ('g, 'm, 'v) player option" where
  "draw_annotations v buffer_ready showAnnotations ghostPrevious ghostNext mvp player =
     (case (if buffer_ready \<and> showAnnotations
            then drawAnnotations v ghostPrevious ghostNext mvp player
            else (mvp, [], player)) of
        (mvp', calls1, player1) \<Rightarrow>
          (if use_opengl2 v \<and> showAnnotations then
             (case drawAnnotationsGL2 v ghostPrevious ghostNext player1 of
                (calls2, player2) \<Rightarrow> (calls1 @ calls2, player2))
           else (calls1, player1)))"

text \<open>
  The fields of a shape that neither function writes identify it in the list of draw calls.
\<close>

definition shape_id :: "('g, 'm, 'v) shape \<Rightarrow> shape_class \<times> 'g" where
  "shape_id s = (shape_class s, geometry s)"

text \<open>The shapes that the loop of \<open>_drawAnnotations\<close> does not pass over with \<open>continue\<close>.\<close>

definition drawn_by_drawAnnotations :: "('m, 'v) view \<Rightarrow> ('g, 'm, 'v) shape \<Rightarrow> bool" where
  "drawn_by_drawAnnotations v s = (\<not> (use_opengl2 v \<and> is_GL2TextShape s))"

definition stored_alphas :: "('g, 'm, 'v) annotation list \<Rightarrow> rat list list" where
  "stored_alphas anns = map (\<lambda>ann. map color_a (shapes ann)) anns"

text \<open>Concrete inputs for the examples.\<close>

definition ex_view :: "bool \<Rightarrow> (nat, nat) view" where
  "ex_view gl2 = \<lparr>use_opengl2 = gl2, text_mvp = 7, gl2_mvp = 8, gl2_text_view = 9\<rparr>"

definition ex_shape :: "shape_class \<Rightarrow> nat \<Rightarrow> rat \<Rightarrow> (nat, nat, nat) shape" where
  "ex_shape c g al = \<lparr>shape_class = c, geometry = g, color_a = al, matrix = 0, text_view = 0\<rparr>"

definition ex_annotation :: "(nat, nat, nat) shape list \<Rightarrow> (nat, nat, nat) annotation" where
  "ex_annotation ss = \<lparr>frame = 10, allFrames = False, shapes = ss\<rparr>"


section \<open>The readback ring (Viewport::GLPrivate, Viewport::_initializeGL, Viewport::_bindReadImage)\<close>

text \<open>
  \<open>gl.index\<close>, \<open>gl.nextIndex\<close>, the two pixel buffer objects \<open>gl.pboIds[0]\<close> and
  \<open>gl.pboIds[1]\<close> (identified with their array index; \<open>pbo\<close> gives the floats a slot
  holds once the read into it has completed) and \<open>gl.image\<close>: the slot whose mapping the
  pointer refers to, \<open>None\<close> for \<open>nullptr\<close>. \<open>glMapBuffer\<close> is taken to succeed.
  \<open>renderSize_w\<close> is \<open>gl.buffer->getSize().w\<close>.
\<close>

record GLPrivate =
  index :: int
  nextIndex :: int
  pbo :: "int \<Rightarrow> rat list"
  gl_image :: "int option"
  renderSize_w :: int

text \<open>The C++ operator \<open>%\<close> on \<open>int\<close>: the remainder of the division truncated towards zero.\<close>

definition c_rem :: "int \<Rightarrow> int \<Rightarrow> int" where
  "c_rem x y = sgn x * (\<bar>x\<bar> mod \<bar>y\<bar>)"


text \<open>
  \<open>_bindReadImage\<close>: advance, \<open>glReadPixels\<close> of the framebuffer into \<open>pboIds[index]\<close>,
  \<open>glMapBuffer\<close> of \<open>pboIds[nextIndex]\<close>.
\<close>

definition bindReadImage :: "rat list \<Rightarrow> GLPrivate \<Rightarrow> GLPrivate" where
  "bindReadImage framebuffer gl =
     (let i = c_rem (index gl + 1) 2;
          n = c_rem (i + 1) 2
      in gl\<lparr>index := i, nextIndex := n,
             pbo := (pbo gl)(i := framebuffer),
             gl_image := Some n\<rparr>)"

text \<open>\<open>if ( gl.image ) { glUnmapBuffer(GL_PIXEL_PACK_BUFFER); gl.image = nullptr; }\<close>\<close>

definition unmapImage :: "GLPrivate \<Rightarrow> GLPrivate" where
  "unmapImage gl = gl\<lparr>gl_image := None\<rparr>"

text \<open>The buffer that \<open>gl.image\<close> points to.\<close>

definition mapped_buffer :: "GLPrivate \<Rightarrow> rat list option" where
  "mapped_buffer gl = map_option (pbo gl) (gl_image gl)"

definition ex_gl :: GLPrivate where
  "ex_gl = \<lparr>index = 0, nextIndex = 1, pbo = (\<lambda>slot. []), gl_image = None, renderSize_w = 2\<rparr>"


section \<open>Pixel decoding (Viewport::_getPixelValue)\<close>

text \<open>
  \<open>imaging::PixelType\<close>, in the order of its declaration. The enumeration, the functions
  \<open>getChannelCount\<close> and \<open>getBitDepth\<close> and the struct \<open>imaging::U10\<close> belong to the
  rendering library and are not part of the sources at hand.
\<close>

datatype PixelType =
    PixelType_None
  | L_U8 | L_U16 | L_U32 | L_F16 | L_F32
  | LA_U8 | LA_U16 | LA_U32 | LA_F16 | LA_F32
  | RGB_U8 | RGB_U10 | RGB_U16 | RGB_U32 | RGB_F16 | RGB_F32
  | RGBA_U8 | RGBA_U16 | RGBA_U32 | RGBA_F16 | RGBA_F32
  | YUV_420P_U8 | YUV_422P_U8 | YUV_444P_U8
  | YUV_420P_U16 | YUV_422P_U16 | YUV_444P_U16

datatype VideoLevels = FullRange | LegalRange

text \<open>
  A channel of \<open>imaging::Color4f\<close>. \<open>Value q\<close> is the float denoted by the rational \<open>q\<close>
  (an integer sample after its division, or a constant); \<open>Half h\<close> and \<open>Float w\<close> are the
  floats converted from the half, respectively float, with bit pattern \<open>h\<close>, \<open>w\<close>: a
  sample of a floating-point format is passed on as it is stored.
\<close>

datatype channel = Value rat | Half nat | Float nat

record 'c Color4 =
  ch_r :: 'c
  ch_g :: 'c
  ch_b :: 'c
  ch_a :: 'c

record 'k Image =
  pixelType :: PixelType
  videoLevels :: VideoLevels
  yuvCoefficients :: 'k
  size_w :: int
  size_h :: int
  data :: "8 word list"

text \<open>
  The functions of \<open>mrvCore/mrvColorSpaces.h\<close> and of the viewport's base class that
  \<open>_getPixelValue\<close> calls; they are parameters of the model.
\<close>

record ('k, 'y) color_ext =
  getYUVCoefficients :: "'k \<Rightarrow> 'y"
  checkLevels :: "channel Color4 \<Rightarrow> VideoLevels \<Rightarrow> channel Color4"
  to_rgb :: "channel Color4 \<Rightarrow> 'y \<Rightarrow> channel Color4"

text \<open>
  Modelled from the spec: \<open>imaging::getChannelCount\<close> is declared outside the sources;
  each variant of the format tag fixes the channel count (L, LA, RGB, RGBA; three planes
  for YUV).
\<close>

fun getChannelCount :: "PixelType \<Rightarrow> int" where
  "getChannelCount PixelType_None = 0"
| "getChannelCount L_U8 = 1" | "getChannelCount L_U16 = 1" | "getChannelCount L_U32 = 1"
| "getChannelCount L_F16 = 1" | "getChannelCount L_F32 = 1"
| "getChannelCount LA_U8 = 2" | "getChannelCount LA_U16 = 2" | "getChannelCount LA_U32 = 2"
| "getChannelCount LA_F16 = 2" | "getChannelCount LA_F32 = 2"
| "getChannelCount RGB_U8 = 3" | "getChannelCount RGB_U10 = 3" | "getChannelCount RGB_U16 = 3"
| "getChannelCount RGB_U32 = 3" | "getChannelCount RGB_F16 = 3" | "getChannelCount RGB_F32 = 3"
| "getChannelCount RGBA_U8 = 4" | "getChannelCount RGBA_U16 = 4" | "getChannelCount RGBA_U32 = 4"
| "getChannelCount RGBA_F16 = 4" | "getChannelCount RGBA_F32 = 4"
| "getChannelCount YUV_420P_U8 = 3" | "getChannelCount YUV_422P_U8 = 3"
| "getChannelCount YUV_444P_U8 = 3" | "getChannelCount YUV_420P_U16 = 3"
| "getChannelCount YUV_422P_U16 = 3" | "getChannelCount YUV_444P_U16 = 3"

text \<open>
  Modelled from the spec: \<open>imaging::getBitDepth\<close> is declared outside the sources; the
  bit depth is the one the format tag names (U8, U10, U16, U32, F16, F32).
\<close>

fun getBitDepth :: "PixelType \<Rightarrow> int" where
  "getBitDepth PixelType_None = 0"
| "getBitDepth L_U8 = 8" | "getBitDepth L_U16 = 16" | "getBitDepth L_U32 = 32"
| "getBitDepth L_F16 = 16" | "getBitDepth L_F32 = 32"
| "getBitDepth LA_U8 = 8" | "getBitDepth LA_U16 = 16" | "getBitDepth LA_U32 = 32"
| "getBitDepth LA_F16 = 16" | "getBitDepth LA_F32 = 32"
| "getBitDepth RGB_U8 = 8" | "getBitDepth RGB_U10 = 10" | "getBitDepth RGB_U16 = 16"
| "getBitDepth RGB_U32 = 32" | "getBitDepth RGB_F16 = 16" | "getBitDepth RGB_F32 = 32"
| "getBitDepth RGBA_U8 = 8" | "getBitDepth RGBA_U16 = 16" | "getBitDepth RGBA_U32 = 32"
| "getBitDepth RGBA_F16 = 16" | "getBitDepth RGBA_F32 = 32"
| "getBitDepth YUV_420P_U8 = 8" | "getBitDepth YUV_422P_U8 = 8"
| "getBitDepth YUV_444P_U8 = 8" | "getBitDepth YUV_420P_U16 = 16"
| "getBitDepth YUV_422P_U16 = 16" | "getBitDepth YUV_444P_U16 = 16"

text \<open>
  Reads through \<open>const uint8_t* data\<close>. A read outside the buffer is undefined behaviour
  in the source; the model returns \<open>None\<close>. \<open>u8 d i\<close> is \<open>data[i]\<close>; \<open>u16 d off k\<close> is
  \<open>((uint16_t* )(&data[off]))[k]\<close> and \<open>u32 d off k\<close> is \<open>((uint32_t* )(&data[off]))[k]\<close>
  on a little-endian host.
\<close>

definition u8 :: "8 word list \<Rightarrow> int \<Rightarrow> nat option" where
  "u8 d i = (if 0 \<le> i \<and> i < int (length d) then Some (unat (d ! nat i)) else None)"

definition u16 :: "8 word list \<Rightarrow> int \<Rightarrow> int \<Rightarrow> nat option" where
  "u16 d off k =
     do { b0 \<leftarrow> u8 d (off + 2 * k);
          b1 \<leftarrow> u8 d (off + 2 * k + 1);
          Some (b0 + 256 * b1) }"

definition u32 :: "8 word list \<Rightarrow> int \<Rightarrow> int \<Rightarrow> nat option" where
  "u32 d off k =
     do { b0 \<leftarrow> u8 d (off + 4 * k);
          b1 \<leftarrow> u8 d (off + 4 * k + 1);
          b2 \<leftarrow> u8 d (off + 4 * k + 2);
          b3 \<leftarrow> u8 d (off + 4 * k + 3);
          Some (b0 + 256 * b1 + 65536 * b2 + 16777216 * b3) }"

text \<open>
  Modelled from the spec: \<open>imaging::U10\<close> is declared outside the sources; three 10-bit
  fields packed in a 32-bit word. On a little-endian host the fields follow two bits of
  padding, \<open>b\<close> lowest and \<open>r\<close> highest.
\<close>

definition U10_r :: "nat \<Rightarrow> nat" where "U10_r w = (w div 4194304) mod 1024"
definition U10_g :: "nat \<Rightarrow> nat" where "U10_g w = (w div 4096) mod 1024"
definition U10_b :: "nat \<Rightarrow> nat" where "U10_b w = (w div 4) mod 1024"

text \<open>\<open>v / 255.0f\<close>, \<open>v / 65535.0f\<close>, \<open>v / max\<close>: the quotient as a channel.\<close>

definition over :: "nat \<Rightarrow> rat \<Rightarrow> channel" where
  "over v m = Value (of_nat v / m)"

text \<open>
  \<open>static_cast<float>( std::numeric_limits<uint32_t>::max() )\<close>, as the integer
  \<open>2^32 - 1\<close> it is written as (the nearest float is \<open>2^32\<close>; rounding is not modelled).
\<close>

definition uint32_max :: rat where
  "uint32_max = 4294967295"

definition is_yuv :: "PixelType \<Rightarrow> bool" where
  "is_yuv t = (t \<in> {YUV_420P_U8, YUV_422P_U8, YUV_444P_U8,
                     YUV_420P_U16, YUV_422P_U16, YUV_444P_U16})"

text \<open>
  For the six YUV cases of the second \<open>switch\<close>: the three samples the case stores in
  \<open>rgba.r\<close>, \<open>rgba.g\<close>, \<open>rgba.b\<close> before it calls \<open>color::checkLevels\<close>. \<open>offset\<close> is
  the value of the variable after the first \<open>switch\<close>, \<open>depth\<close> is \<open>getBitDepth(type) / 8\<close>.
\<close>

definition yuv_samples ::
  "PixelType \<Rightarrow> 8 word list \<Rightarrow> int \<Rightarrow> int \<Rightarrow> int \<Rightarrow> int \<Rightarrow> int \<Rightarrow> int
     \<Rightarrow> channel Color4 \<Rightarrow> channel Color4 option" where
  "yuv_samples t d w h depth offset X Y rgba =
     (case t of
        YUV_420P_U8 \<Rightarrow>
          (let Ysize = w * h;
               w2 = (w + 1) div 2;
               h2 = (h + 1) div 2;
               Usize = w2 * h2;
               offset2 = (Y div 2) * w2 + X div 2
           in do { y \<leftarrow> u8 d offset;
                   u \<leftarrow> u8 d (Ysize + offset2);
                   v \<leftarrow> u8 d (Ysize + Usize + offset2);
                   Some (rgba\<lparr>ch_r := over y 255, ch_g := over u 255, ch_b := over v 255\<rparr>) })
      | YUV_422P_U8 \<Rightarrow>
          (let Ysize = w * h;
               w2 = (w + 1) div 2;
               Usize = w2 * h;
               offset2 = Y * w2 + X div 2
           in do { y \<leftarrow> u8 d offset;
                   u \<leftarrow> u8 d (Ysize + offset2);
                   v \<leftarrow> u8 d (Ysize + Usize + offset2);
                   Some (rgba\<lparr>ch_r := over y 255, ch_g := over u 255, ch_b := over v 255\<rparr>) })
      | YUV_444P_U8 \<Rightarrow>
          (let Ysize = w * h
           in do { y \<leftarrow> u8 d offset;
                   u \<leftarrow> u8 d (Ysize + offset);
                   v \<leftarrow> u8 d (Ysize * 2 + offset);
                   Some (rgba\<lparr>ch_r := over y 255, ch_g := over u 255, ch_b := over v 255\<rparr>) })
      | YUV_420P_U16 \<Rightarrow>
          (let pos = Y * w div 4 + X div 2;
               Ysize = w * h;
               Usize = Ysize div 4
           in do { y \<leftarrow> u8 d offset;
                   u \<leftarrow> u8 d (Ysize + pos);
                   v \<leftarrow> u8 d (Ysize + Usize + pos);
                   Some (rgba\<lparr>ch_r := over y 65535, ch_g := over u 65535,
                               ch_b := over v 65535\<rparr>) })
      | YUV_422P_U16 \<Rightarrow>
          (let Ysize = w * h * depth;
               pos = Y * w + X;
               Usize = w div 2 * h * depth
           in do { y \<leftarrow> u8 d offset;
                   u \<leftarrow> u8 d (Ysize + pos);
                   v \<leftarrow> u8 d (Ysize + Usize + pos);
                   Some (rgba\<lparr>ch_r := over y 65535, ch_g := over u 65535,
                               ch_b := over v 65535\<rparr>) })
      | YUV_444P_U16 \<Rightarrow>
          (let Ysize = w * h * depth
           in do { y \<leftarrow> u8 d offset;
                   u \<leftarrow> u8 d (Ysize + offset);
                   v \<leftarrow> u8 d (Ysize * 2 + offset);
                   Some (rgba\<lparr>ch_r := over y 65535, ch_g := over u 65535,
                               ch_b := over v 65535\<rparr>) })
      | _ \<Rightarrow> None)"

text \<open>
  The second \<open>switch\<close> of \<open>_getPixelValue\<close>, entered with \<open>rgba.a = 1.0f\<close> already
  stored. The formats without a \<open>case\<close> (\<open>None\<close>, \<open>L_F32\<close>, \<open>LA_F32\<close>) reach
  \<open>default: break\<close>.
\<close>

definition decode_switch ::
  "('k, 'y) color_ext \<Rightarrow> 'k Image \<Rightarrow> int \<Rightarrow> int \<Rightarrow> int \<Rightarrow> int
     \<Rightarrow> channel Color4 \<Rightarrow> channel Color4 option" where
  "decode_switch ext img depth offset X Y rgba =
     (let d = data img in
      case pixelType img of
        L_U8 \<Rightarrow>
          do { l \<leftarrow> u8 d offset;
               Some (rgba\<lparr>ch_r := over l 255, ch_g := over l 255, ch_b := over l 255\<rparr>) }
      | LA_U8 \<Rightarrow>
          do { l \<leftarrow> u8 d offset;
               al \<leftarrow> u8 d (offset + 1);
               Some (rgba\<lparr>ch_r := over l 255, ch_g := over l 255, ch_b := over l 255,
                           ch_a := over al 255\<rparr>) }
      | L_U16 \<Rightarrow>
          do { l \<leftarrow> u16 d offset 0;
               Some (rgba\<lparr>ch_r := over l 65535, ch_g := over l 65535, ch_b := over l 65535\<rparr>) }
      | LA_U16 \<Rightarrow>
          do { l \<leftarrow> u16 d offset 0;
               al \<leftarrow> u16 d offset 1;
               Some (rgba\<lparr>ch_r := over l 65535, ch_g := over l 65535, ch_b := over l 65535,
                           ch_a := over al 65535\<rparr>) }
      | L_U32 \<Rightarrow>
          do { l \<leftarrow> u32 d offset 0;
               Some (rgba\<lparr>ch_r := over l uint32_max, ch_g := over l uint32_max,
                           ch_b := over l uint32_max\<rparr>) }
      | LA_U32 \<Rightarrow>
          do { l \<leftarrow> u32 d offset 0;
               al \<leftarrow> u32 d offset 1;
               Some (rgba\<lparr>ch_r := over l uint32_max, ch_g := over l uint32_max,
                           ch_b := over l uint32_max, ch_a := over al uint32_max\<rparr>) }
      | L_F16 \<Rightarrow>
          do { l \<leftarrow> u16 d offset 0;
               Some (rgba\<lparr>ch_r := Half l, ch_g := Half l, ch_b := Half l\<rparr>) }
      | LA_F16 \<Rightarrow>
          do { l \<leftarrow> u16 d offset 0;
               al \<leftarrow> u16 d offset 1;
               Some (rgba\<lparr>ch_r := Half l, ch_g := Half l, ch_b := Half l, ch_a := Half al\<rparr>) }
      | RGB_U8 \<Rightarrow>
          do { cr \<leftarrow> u8 d offset;
               cg \<leftarrow> u8 d (offset + 1);
               cb \<leftarrow> u8 d (offset + 2);
               Some (rgba\<lparr>ch_r := over cr 255, ch_g := over cg 255, ch_b := over cb 255\<rparr>) }
      | RGB_U10 \<Rightarrow>
          do { f \<leftarrow> u32 d offset 0;
               Some (rgba\<lparr>ch_r := over (U10_r f) uint32_max, ch_g := over (U10_g f) uint32_max,
                           ch_b := over (U10_b f) uint32_max\<rparr>) }
      | RGBA_U8 \<Rightarrow>
          do { cr \<leftarrow> u8 d offset;
               cg \<leftarrow> u8 d (offset + 1);
               cb \<leftarrow> u8 d (offset + 2);
               ca \<leftarrow> u8 d (offset + 3);
               Some (rgba\<lparr>ch_r := over cr 255, ch_g := over cg 255, ch_b := over cb 255,
                           ch_a := over ca 255\<rparr>) }
      | RGB_U16 \<Rightarrow>
          do { cr \<leftarrow> u16 d offset 0;
               cg \<leftarrow> u16 d offset 1;
               cb \<leftarrow> u16 d offset 2;
               Some (rgba\<lparr>ch_r := over cr 65535, ch_g := over cg 65535,
                           ch_b := over cb 65535\<rparr>) }
      | RGBA_U16 \<Rightarrow>
          do { cr \<leftarrow> u16 d offset 0;
               cg \<leftarrow> u16 d offset 1;
               cb \<leftarrow> u16 d offset 2;
               ca \<leftarrow> u16 d offset 3;
               Some (rgba\<lparr>ch_r := over cr 65535, ch_g := over cg 65535,
                           ch_b := over cb 65535, ch_a := over ca 65535\<rparr>) }
      | RGB_U32 \<Rightarrow>
          do { cr \<leftarrow> u32 d offset 0;
               cg \<leftarrow> u32 d offset 1;
               cb \<leftarrow> u32 d offset 2;
               Some (rgba\<lparr>ch_r := over cr uint32_max, ch_g := over cg uint32_max,
                           ch_b := over cb uint32_max\<rparr>) }
      | RGBA_U32 \<Rightarrow>
          do { cr \<leftarrow> u32 d offset 0;
               cg \<leftarrow> u32 d offset 1;
               cb \<leftarrow> u32 d offset 2;
               ca \<leftarrow> u32 d offset 3;
               Some (rgba\<lparr>ch_r := over cr uint32_max, ch_g := over cg uint32_max,
                           ch_b := over cb uint32_max, ch_a := over ca uint32_max\<rparr>) }
      | RGB_F16 \<Rightarrow>
          do { cr \<leftarrow> u16 d offset 0;
               cg \<leftarrow> u16 d offset 1;
               cb \<leftarrow> u16 d offset 2;
               Some (rgba\<lparr>ch_r := Half cr, ch_g := Half cg, ch_b := Half cb\<rparr>) }
      | RGBA_F16 \<Rightarrow>
          do { cr \<leftarrow> u16 d offset 0;
               cg \<leftarrow> u16 d offset 1;
               cb \<leftarrow> u16 d offset 2;
               ca \<leftarrow> u16 d offset 3;
               Some (rgba\<lparr>ch_r := Half cr, ch_g := Half cg, ch_b := Half cb, ch_a := Half ca\<rparr>) }
      | RGB_F32 \<Rightarrow>
          do { cr \<leftarrow> u32 d offset 0;
               cg \<leftarrow> u32 d offset 1;
               cb \<leftarrow> u32 d offset 2;
               Some (rgba\<lparr>ch_r := Float cr, ch_g := Float cg, ch_b := Float cb\<rparr>) }
      | RGBA_F32 \<Rightarrow>
          do { cr \<leftarrow> u32 d offset 0;
               cg \<leftarrow> u32 d offset 1;
               cb \<leftarrow> u32 d offset 2;
               ca \<leftarrow> u32 d offset 3;
               Some (rgba\<lparr>ch_r := Float cr, ch_g := Float cg, ch_b := Float cb,
                           ch_a := Float ca\<rparr>) }
      | PixelType_None \<Rightarrow> Some rgba
      | L_F32 \<Rightarrow> Some rgba
      | LA_F32 \<Rightarrow> Some rgba
      | _ \<Rightarrow>
          do { yuv \<leftarrow> yuv_samples (pixelType img) d (size_w img) (size_h img)
                        depth offset X Y rgba;
               Some (to_rgb ext (checkLevels ext yuv (videoLevels img))
                       (getYUVCoefficients ext (yuvCoefficients img))) })"

text \<open>
  \<open>_getPixelValue\<close>. \<open>mirror_x\<close> and \<open>mirror_y\<close> are \<open>p.displayOptions[0].mirror.x\<close>
  and \<open>.y\<close>; \<open>pos_x\<close> and \<open>pos_y\<close> are \<open>pos.x\<close> and \<open>pos.y\<close>. \<open>int\<close> values are
  mathematical integers. The result is the value of the reference parameter \<open>rgba\<close> on
  return.
\<close>

definition probe_X :: "bool \<Rightarrow> 'k Image \<Rightarrow> int \<Rightarrow> int" where
  "probe_X mirror_x img pos_x =
     (let X = pos_x in if mirror_x then size_w img - X - 1 else X)"

definition probe_Y :: "bool \<Rightarrow> 'k Image \<Rightarrow> int \<Rightarrow> int" where
  "probe_Y mirror_y img pos_y =
     (let Y = size_h img - pos_y - 1 in if mirror_y then size_h img - Y - 1 else Y)"

definition getPixelValue ::
  "('k, 'y) color_ext \<Rightarrow> bool \<Rightarrow> bool \<Rightarrow> channel Color4 \<Rightarrow> 'k Image \<Rightarrow> int \<Rightarrow> int
     \<Rightarrow> channel Color4 option" where
  "getPixelValue ext mirror_x mirror_y rgba img pos_x pos_y =
     (let type = pixelType img;
          channels = getChannelCount type;
          depth = getBitDepth type div 8;
          X = probe_X mirror_x img pos_x;
          Y = probe_Y mirror_y img pos_y
      in if X < 0 \<or> Y < 0 \<or> X \<ge> size_w img \<or> Y \<ge> size_h img then Some rgba
         else
           (let offset0 = (Y * size_w img + X) * depth;
                offset = (if is_yuv type then offset0 else offset0 * channels)
            in decode_switch ext img depth offset X Y (rgba\<lparr>ch_a := Value 1\<rparr>)))"


text \<open>
  The addressing of a planar YUV image as the specification words it: subsampling factors
  \<open>(2,2)\<close> for 420, \<open>(2,1)\<close> for 422, \<open>(1,1)\<close> for 444, and the index of the U
  sample \<open>lumaPlaneSize + (y/subY)*(w/subX) + x/subX\<close>.
\<close>

definition subX :: "PixelType \<Rightarrow> int" where
  "subX t = (if t \<in> {YUV_444P_U8, YUV_444P_U16} then 1 else 2)"

definition subY :: "PixelType \<Rightarrow> int" where
  "subY t = (if t \<in> {YUV_420P_U8, YUV_420P_U16} then 2 else 1)"

definition claimed_U_index :: "PixelType \<Rightarrow> int \<Rightarrow> int \<Rightarrow> int \<Rightarrow> int \<Rightarrow> int" where
  "claimed_U_index t w h X Y = w * h + (Y div subY t) * (w div subX t) + X div subX t"

text \<open>The width and the height of a chroma plane as the 8-bit cases compute them.\<close>

definition chroma_w :: "PixelType \<Rightarrow> int \<Rightarrow> int" where
  "chroma_w t w = (w + subX t - 1) div subX t"

definition chroma_h :: "PixelType \<Rightarrow> int \<Rightarrow> int" where
  "chroma_h t h = (h + subY t - 1) div subY t"

text \<open>Concrete inputs for the examples: the external colour functions as identities.\<close>

definition ex_ext :: "(unit, unit) color_ext" where
  "ex_ext = \<lparr>getYUVCoefficients = (\<lambda>k. k), checkLevels = (\<lambda>c lv. c), to_rgb = (\<lambda>c y. c)\<rparr>"

definition ex_rgba :: "channel Color4" where
  "ex_rgba = \<lparr>ch_r = Value 0, ch_g = Value 0, ch_b = Value 0, ch_a = Value 0\<rparr>"

definition ex_image :: "PixelType \<Rightarrow> int \<Rightarrow> int \<Rightarrow> 8 word list \<Rightarrow> unit Image" where
  "ex_image t w h d =
     \<lparr>pixelType = t, videoLevels = FullRange, yuvCoefficients = (),
      size_w = w, size_h = h, data = d\<rparr>"


text \<open>The divisor of the YUV cases: \<open>255.0f\<close> in the 8-bit ones, \<open>65535.0f\<close> in the 16-bit ones.\<close>

definition yuv_max :: "PixelType \<Rightarrow> rat" where
  "yuv_max t = (if t \<in> {YUV_420P_U8, YUV_422P_U8, YUV_444P_U8} then 255 else 65535)"

text \<open>
  Concrete inputs for the examples: colour functions that leave a trace of the order in
  which they ran, and a 3 by 3 image in 420 layout (9 luma, 4 U and 4 V samples) whose U
  plane holds 255 at index 2.
\<close>

definition ex_order_ext :: "(unit, unit) color_ext" where
  "ex_order_ext =
     \<lparr>getYUVCoefficients = (\<lambda>k. k),
      checkLevels = (\<lambda>c lv. c\<lparr>ch_a := Value 2\<rparr>),
      to_rgb = (\<lambda>c y. c\<lparr>ch_r := ch_a c\<rparr>)\<rparr>"

definition ex_yuv_data :: "8 word list" where
  "ex_yuv_data = [0, 0, 0, 0, 0, 0, 0, 0, 0,  0, 0, 255, 0,  0, 0, 0, 0]"


section \<open>Colour area statistics (Viewport::_calculateColorArea, the selection block of Viewport::draw)\<close>

record BBox2i =
  min_x :: int
  min_y :: int
  max_x :: int
  max_y :: int

text \<open>
  \<open>box.x()\<close> and \<open>box.y()\<close>: the corner at which the region of the specification
  \<open>{x, y, w, h}\<close> starts. The members \<open>w()\<close> and \<open>h()\<close> of \<open>math::BBox2i\<close> are
  declared outside the sources and the specification does not derive them from the
  corners: they are parameters (\<open>box_w\<close> and \<open>box_h\<close> below), with the two candidate
  readings \<open>extent_exclusive\<close> (\<open>max - min\<close>) and \<open>extent_inclusive\<close> (\<open>max - min + 1\<close>).
\<close>

definition box_x :: "BBox2i \<Rightarrow> int" where "box_x b = min_x b"
definition box_y :: "BBox2i \<Rightarrow> int" where "box_y b = min_y b"

definition extent_exclusive :: "int \<Rightarrow> int \<Rightarrow> int" where
  "extent_exclusive lo hi = hi - lo"

definition extent_inclusive :: "int \<Rightarrow> int \<Rightarrow> int" where
  "extent_inclusive lo hi = hi - lo + 1"

record Stats =
  st_max :: "rat Color4"
  st_min :: "rat Color4"
  st_mean :: "rat Color4"
  st_diff :: "rat Color4"

record Info =
  info_box :: BBox2i
  info_rgba :: Stats
  info_hsv :: Stats

text \<open>
  The value of \<open>hsv_colorspace\<close> as the \<open>switch\<close> distinguishes it; \<open>kOther\<close> stands
  for every value without a \<open>case\<close>.
\<close>

datatype colorspace =
    kRGB | kHSV | kHSL | kCIE_XYZ | kCIE_xyY | kCIE_Lab | kCIE_Luv
  | kYUV | kYDbDr | kYIQ | kITU_601 | kITU_709 | kOther

text \<open>
  The parameters of the model: \<open>BBox2i::w()\<close> and \<open>BBox2i::h()\<close>, the conversions of
  \<open>mrvCore/mrvColorSpaces.h\<close> and \<open>calculate_brightness\<close>.
\<close>

record 'b area_ext =
  box_w :: "BBox2i \<Rightarrow> int"
  box_h :: "BBox2i \<Rightarrow> int"
  to_hsv :: "rat Color4 \<Rightarrow> rat Color4"
  to_hsl :: "rat Color4 \<Rightarrow> rat Color4"
  to_xyz :: "rat Color4 \<Rightarrow> rat Color4"
  to_xyY :: "rat Color4 \<Rightarrow> rat Color4"
  to_lab :: "rat Color4 \<Rightarrow> rat Color4"
  to_luv :: "rat Color4 \<Rightarrow> rat Color4"
  to_yuv :: "rat Color4 \<Rightarrow> rat Color4"
  to_YDbDr :: "rat Color4 \<Rightarrow> rat Color4"
  to_yiq :: "rat Color4 \<Rightarrow> rat Color4"
  to_ITU601 :: "rat Color4 \<Rightarrow> rat Color4"
  to_ITU709 :: "rat Color4 \<Rightarrow> rat Color4"
  calculate_brightness :: "rat Color4 \<Rightarrow> 'b \<Rightarrow> rat"

text \<open>\<open>std::numeric_limits<float>::max()\<close> and \<open>std::numeric_limits<float>::min()\<close>\<close>

definition float_max :: rat where
  "float_max = (2 ^ 24 - 1) * 2 ^ 104"

definition float_min :: rat where
  "float_min = 1 / 2 ^ 126"

datatype area_error = InvalidRead | DivisionByZero

text \<open>
  \<open>gl.image[ i ]\<close>: a read outside the mapped buffer is undefined behaviour in the source,
  \<open>None\<close> in the model.
\<close>

definition gl_at :: "rat list \<Rightarrow> int \<Rightarrow> rat option" where
  "gl_at buf i = (if 0 \<le> i \<and> i < int (length buf) then Some (buf ! nat i) else None)"

definition all4 :: "rat \<Rightarrow> rat Color4" where
  "all4 q = \<lparr>ch_r = q, ch_g = q, ch_b = q, ch_a = q\<rparr>"

text \<open>The assignments before the loops.\<close>

definition reset_stats :: "Stats \<Rightarrow> Stats" where
  "reset_stats st = st\<lparr>st_max := all4 float_min, st_min := all4 float_max, st_mean := all4 0\<rparr>"

text \<open>The twelve statements that follow a sample: \<open>mean += c\<close>, then the minima, then the maxima.\<close>

definition track :: "Stats \<Rightarrow> rat Color4 \<Rightarrow> Stats" where
  "track st c =
     (let mean1 = \<lparr>ch_r = ch_r (st_mean st) + ch_r c, ch_g = ch_g (st_mean st) + ch_g c,
                   ch_b = ch_b (st_mean st) + ch_b c, ch_a = ch_a (st_mean st) + ch_a c\<rparr>;
          min1 = \<lparr>ch_r = (if ch_r c < ch_r (st_min st) then ch_r c else ch_r (st_min st)),
                  ch_g = (if ch_g c < ch_g (st_min st) then ch_g c else ch_g (st_min st)),
                  ch_b = (if ch_b c < ch_b (st_min st) then ch_b c else ch_b (st_min st)),
                  ch_a = (if ch_a c < ch_a (st_min st) then ch_a c else ch_a (st_min st))\<rparr>;
          max1 = \<lparr>ch_r = (if ch_r c > ch_r (st_max st) then ch_r c else ch_r (st_max st)),
                  ch_g = (if ch_g c > ch_g (st_max st) then ch_g c else ch_g (st_max st)),
                  ch_b = (if ch_b c > ch_b (st_max st) then ch_b c else ch_b (st_max st)),
                  ch_a = (if ch_a c > ch_a (st_max st) then ch_a c else ch_a (st_max st))\<rparr>
      in st\<lparr>st_max := max1, st_min := min1, st_mean := mean1\<rparr>)"

definition clamp01 :: "rat \<Rightarrow> rat" where
  "clamp01 q = (let q1 = (if q < 0 then 0 else q) in if q1 > 1 then 1 else q1)"

definition clamp_rgb :: "rat Color4 \<Rightarrow> rat Color4" where
  "clamp_rgb c = c\<lparr>ch_r := clamp01 (ch_r c), ch_g := clamp01 (ch_g c), ch_b := clamp01 (ch_b c)\<rparr>"

text \<open>\<open>switch( hsv_colorspace )\<close>\<close>

fun convert :: "'b area_ext \<Rightarrow> colorspace \<Rightarrow> rat Color4 \<Rightarrow> rat Color4" where
  "convert ext kHSV c = to_hsv ext c"
| "convert ext kHSL c = to_hsl ext c"
| "convert ext kCIE_XYZ c = to_xyz ext c"
| "convert ext kCIE_xyY c = to_xyY ext c"
| "convert ext kCIE_Lab c = to_lab ext c"
| "convert ext kCIE_Luv c = to_luv ext c"
| "convert ext kYUV c = to_yuv ext c"
| "convert ext kYDbDr c = to_YDbDr ext c"
| "convert ext kYIQ c = to_yiq ext c"
| "convert ext kITU_601 c = to_ITU601 ext c"
| "convert ext kITU_709 c = to_ITU709 ext c"
| "convert ext kRGB c = c"
| "convert ext kOther c = c"

text \<open>The body of the inner loop for the pixel \<open>(X, Y)\<close>.\<close>

definition sample_pixel ::
  "'b area_ext \<Rightarrow> colorspace \<Rightarrow> 'b \<Rightarrow> rat list \<Rightarrow> int \<Rightarrow> int \<Rightarrow> int \<Rightarrow> Info \<Rightarrow> Info option" where
  "sample_pixel ext hsv_colorspace brightness_type buf renderSize_w0 Y X info =
     do { cb \<leftarrow> gl_at buf ((X + Y * renderSize_w0) * 4);
          cg \<leftarrow> gl_at buf ((X + Y * renderSize_w0) * 4 + 1);
          cr \<leftarrow> gl_at buf ((X + Y * renderSize_w0) * 4 + 2);
          ca \<leftarrow> gl_at buf ((X + Y * renderSize_w0) * 4 + 3);
          let rgba = \<lparr>ch_r = cr, ch_g = cg, ch_b = cb, ch_a = ca\<rparr>;
              info1 = info\<lparr>info_rgba := track (info_rgba info) rgba\<rparr>;
              rgba1 = clamp_rgb rgba;
              hsv = convert ext hsv_colorspace rgba1;
              hsv1 = hsv\<lparr>ch_a := calculate_brightness ext rgba1 brightness_type\<rparr>
          in Some (info1\<lparr>info_hsv := track (info_hsv info1) hsv1\<rparr>) }"

text \<open>A \<open>for\<close> loop over the values of a list whose body may perform an invalid read.\<close>

fun for_each :: "('x \<Rightarrow> 's \<Rightarrow> 's option) \<Rightarrow> 'x list \<Rightarrow> 's \<Rightarrow> 's option" where
  "for_each body [] s = Some s"
| "for_each body (x # xs) s =
     (case body x s of None \<Rightarrow> None | Some s' \<Rightarrow> for_each body xs s')"

text \<open>\<open>mean /= num\<close> on the four channels, and \<open>diff = max - min\<close>.\<close>

definition finish_stats :: "int \<Rightarrow> Stats \<Rightarrow> Stats" where
  "finish_stats num st =
     (let mean1 = \<lparr>ch_r = ch_r (st_mean st) / of_int num, ch_g = ch_g (st_mean st) / of_int num,
                   ch_b = ch_b (st_mean st) / of_int num, ch_a = ch_a (st_mean st) / of_int num\<rparr>;
          diff1 = \<lparr>ch_r = ch_r (st_max st) - ch_r (st_min st),
                   ch_g = ch_g (st_max st) - ch_g (st_min st),
                   ch_b = ch_b (st_max st) - ch_b (st_min st),
                   ch_a = ch_a (st_max st) - ch_a (st_min st)\<rparr>
      in st\<lparr>st_mean := mean1, st_diff := diff1\<rparr>)"

text \<open>
  \<open>_calculateColorArea\<close>. A float division by zero does not trap: it stores a NaN or an
  infinity in the mean. Rationals have neither, so the model reports that outcome as
  \<open>Inl DivisionByZero\<close>; \<open>Inr\<close> carries the record as the function leaves it.
\<close>

definition calculateColorArea ::
  "'b area_ext \<Rightarrow> colorspace \<Rightarrow> 'b \<Rightarrow> GLPrivate \<Rightarrow> Info \<Rightarrow> area_error + Info" where
  "calculateColorArea ext hsv_colorspace brightness_type gl info =
     (case mapped_buffer gl of
        None \<Rightarrow> Inr info
      | Some buf \<Rightarrow>
          (let info1 = info\<lparr>info_rgba := reset_stats (info_rgba info),
                             info_hsv := reset_stats (info_hsv info)\<rparr>;
               maxX = max_x (info_box info1);
               maxY = max_y (info_box info1)
           in case for_each
                     (\<lambda>Y. for_each
                             (sample_pixel ext hsv_colorspace brightness_type buf
                                (renderSize_w gl) Y)
                             [box_x (info_box info1) .. maxX - 1])
                     [box_y (info_box info1) .. maxY - 1] info1 of
                None \<Rightarrow> Inl InvalidRead
              | Some info2 \<Rightarrow>
                  (let num = box_w ext (info_box info2) * box_h ext (info_box info2)
                   in if num = 0 then Inl DivisionByZero
                      else Inr (info2\<lparr>info_rgba := finish_stats num (info_rgba info2),
                                       info_hsv := finish_stats num (info_hsv info2)\<rparr>))))"

text \<open>
  The selection block of \<open>draw\<close>, from \<open>math::BBox2i selection = p.colorAreaInfo.box =
  p.selection\<close> to the unmapping, with the calls that concern the statistics.
  \<open>colorAreaTool\<close> tells whether the panel exists.
\<close>

definition normalized :: "BBox2i \<Rightarrow> BBox2i" where
  "normalized selection =
     (let s1 = (if min_x selection > max_x selection
                then selection\<lparr>max_x := min_x selection, min_x := max_x selection\<rparr>
                else selection);
          s2 = (if min_y s1 > max_y s1
                then s1\<lparr>max_y := min_y s1, min_y := max_y s1\<rparr>
                else s1)
      in s2)"

definition draw_selection ::
  "'b area_ext \<Rightarrow> colorspace \<Rightarrow> 'b \<Rightarrow> bool \<Rightarrow> rat list \<Rightarrow> BBox2i \<Rightarrow> GLPrivate \<Rightarrow> Info
     \<Rightarrow> area_error + (GLPrivate \<times> Info)" where
  "draw_selection ext hsv_colorspace brightness_type colorAreaTool framebuffer p_selection gl
       colorAreaInfo =
     (let selection = p_selection;
          info0 = colorAreaInfo\<lparr>info_box := selection\<rparr>;
          state1 = (if (min_x selection, min_y selection) \<noteq> (max_x selection, max_y selection)
                    then (bindReadImage framebuffer gl, info0\<lparr>info_box := normalized selection\<rparr>)
                    else (gl\<lparr>gl_image := None\<rparr>, info0))
      in case (if colorAreaTool
               then calculateColorArea ext hsv_colorspace brightness_type (fst state1) (snd state1)
               else Inr (snd state1)) of
           Inl e \<Rightarrow> Inl e
         | Inr info2 \<Rightarrow>
             Inr (if gl_image (fst state1) \<noteq> None then unmapImage (fst state1) else fst state1,
                  info2))"

definition ex_area_ext :: "unit area_ext" where
  "ex_area_ext =
     \<lparr>box_w = (\<lambda>b. extent_inclusive (min_x b) (max_x b)),
      box_h = (\<lambda>b. extent_inclusive (min_y b) (max_y b)),
      to_hsv = (\<lambda>c. c), to_hsl = (\<lambda>c. c), to_xyz = (\<lambda>c. c), to_xyY = (\<lambda>c. c),
      to_lab = (\<lambda>c. c), to_luv = (\<lambda>c. c), to_yuv = (\<lambda>c. c), to_YDbDr = (\<lambda>c. c),
      to_yiq = (\<lambda>c. c), to_ITU601 = (\<lambda>c. c), to_ITU709 = (\<lambda>c. c),
      calculate_brightness = (\<lambda>c bt. ch_r c)\<rparr>"

definition ex_stats :: Stats where
  "ex_stats = \<lparr>st_max = all4 1, st_min = all4 0, st_mean = all4 (1/2), st_diff = all4 1\<rparr>"

definition ex_info :: Info where
  "ex_info = \<lparr>info_box = \<lparr>min_x = 0, min_y = 0, max_x = 1, max_y = 1\<rparr>,
              info_rgba = ex_stats, info_hsv = ex_stats\<rparr>"


section \<open>The readback ring in Viewport::_readPixel, and the histories of the ring\<close>

text \<open>
  \<open>_readPixel\<close>. \<open>valid\<close> is \<open>valid()\<close>; \<open>kFull\<close> tells whether
  \<open>p.ui->uiPixelValue->value()\<close> is \<open>PixelValue::kFull\<close>; \<open>has_buffer\<close> whether
  \<open>gl.buffer\<close> is set; \<open>update\<close> is the local of that name (playback stopped, or an
  in/out range that is not empty). \<open>layers_rgba\<close> is the sum that the first branch
  computes from the video layers with \<open>_getPixelValue\<close> and \<open>screen_rgba\<close> the pixel
  that the 1 by 1 \<open>glReadPixels\<close> returns: neither touches the ring. The last branch
  advances the ring with the statements of \<open>_bindReadImage\<close> when no buffer is mapped.
  The result is the value of \<open>rgba\<close> on return (\<open>None\<close> after a read outside the mapped
  buffer) and the state of \<open>GLPrivate\<close>.
\<close>

definition readPixel ::
  "bool \<Rightarrow> bool \<Rightarrow> bool \<Rightarrow> bool \<Rightarrow> rat Color4 \<Rightarrow> rat Color4 \<Rightarrow> rat list \<Rightarrow> int \<Rightarrow> int
     \<Rightarrow> rat Color4 \<Rightarrow> GLPrivate \<Rightarrow> rat Color4 option \<times> GLPrivate" where
  "readPixel valid kFull has_buffer update layers_rgba screen_rgba framebuffer pos_x pos_y
       rgba gl =
     (if \<not> valid then (Some rgba, gl)
      else if \<not> kFull then
        (Some layers_rgba, if gl_image gl \<noteq> None then unmapImage gl else gl)
      else if \<not> has_buffer then (Some rgba, gl)
      else if update then (Some screen_rgba, gl)
      else
        (let gl1 = (if gl_image gl = None
                    then (let i = c_rem (index gl + 1) 2;
                              n = c_rem (i + 1) 2
                          in gl\<lparr>index := i, nextIndex := n,
                                 pbo := (pbo gl)(i := framebuffer),
                                 gl_image := Some n\<rparr>)
                    else gl);
             rgba1 = (case mapped_buffer gl1 of
                        None \<Rightarrow> Some rgba
                      | Some buf \<Rightarrow>
                          do { cb \<leftarrow> gl_at buf ((pos_x + pos_y * renderSize_w gl1) * 4);
                               cg \<leftarrow> gl_at buf ((pos_x + pos_y * renderSize_w gl1) * 4 + 1);
                               cr \<leftarrow> gl_at buf ((pos_x + pos_y * renderSize_w gl1) * 4 + 2);
                               ca \<leftarrow> gl_at buf ((pos_x + pos_y * renderSize_w gl1) * 4 + 3);
                               Some \<lparr>ch_r = cr, ch_g = cg, ch_b = cb, ch_a = ca\<rparr> })
         in (rgba1, if gl_image gl1 \<noteq> None then unmapImage gl1 else gl1)))"

text \<open>
  What happens to the ring between two moments: a \<open>draw\<close> with an active selection
  (\<open>_bindReadImage\<close> of the frame's framebuffer, unmapped at the end of the selection
  block), a \<open>draw\<close> without one (\<open>gl.image = nullptr\<close>), or a call of \<open>_readPixel\<close>
  with its four conditions, the framebuffer and the probe position.
\<close>

datatype ring_event =
    DrawSelection "rat list"
  | DrawNoSelection
  | ReadPixel bool bool bool bool "rat list" int int

fun ring_step :: "ring_event \<Rightarrow> GLPrivate \<Rightarrow> GLPrivate" where
  "ring_step (DrawSelection framebuffer) gl = unmapImage (bindReadImage framebuffer gl)"
| "ring_step DrawNoSelection gl = gl\<lparr>gl_image := None\<rparr>"
| "ring_step (ReadPixel valid kFull has_buffer update framebuffer pos_x pos_y) gl =
     snd (readPixel valid kFull has_buffer update (all4 0) (all4 0) framebuffer pos_x pos_y
            (all4 0) gl)"







section \<open>Properties of the annotation compositing\<close>







lemma draw_shapes_calls_id:
  "map shape_id (fst (snd (draw_shapes v am mvp xs))) =
     map shape_id (filter (drawn_by_drawAnnotations v) xs)"
  by (induction xs arbitrary: mvp)
     (simp_all add: shape_id_def drawn_by_drawAnnotations_def Let_def case_prod_beta)

lemma draw_shapes_calls_alpha:
  "map color_a (fst (snd (draw_shapes v am mvp xs))) =
     map (\<lambda>s. color_a s * am) (filter (drawn_by_drawAnnotations v) xs)"
  by (induction xs arbitrary: mvp)
     (simp_all add: drawn_by_drawAnnotations_def Let_def case_prod_beta)

lemma draw_shapes_visited_alpha:
  "map color_a (snd (snd (draw_shapes v am mvp xs))) = map color_a xs"
  by (induction xs arbitrary: mvp) (simp_all add: Let_def case_prod_beta)

lemma draw_shapes_visited_id:
  "map shape_id (snd (snd (draw_shapes v am mvp xs))) = map shape_id xs"
  by (induction xs arbitrary: mvp) (simp_all add: Let_def shape_id_def case_prod_beta)

lemma draw_shapesGL2_calls_id:
  "map shape_id (fst (draw_shapesGL2 v am xs)) = map shape_id (filter is_GL2TextShape xs)"
  by (induction xs) (simp_all add: shape_id_def Let_def case_prod_beta)

lemma draw_shapesGL2_calls_alpha:
  "map color_a (fst (draw_shapesGL2 v am xs)) =
     map (\<lambda>s. color_a s * am) (filter is_GL2TextShape xs)"
  by (induction xs) (simp_all add: Let_def case_prod_beta)

lemma draw_shapesGL2_visited_alpha:
  "map color_a (snd (draw_shapesGL2 v am xs)) = map color_a xs"
  by (induction xs) (simp_all add: Let_def case_prod_beta)

lemma drawAnnotation_alpha_kept:
  "map color_a (shapes (snd (snd (drawAnnotation v cf gp gn mvp ann)))) = map color_a (shapes ann)"
proof -
  have "map color_a (rev (snd (snd (draw_shapes v am mvp (rev (shapes ann)))))) =
        map color_a (shapes ann)" for am
  proof -
    have "map color_a (rev (snd (snd (draw_shapes v am mvp (rev (shapes ann)))))) =
          rev (map color_a (snd (snd (draw_shapes v am mvp (rev (shapes ann))))))"
      by (simp add: rev_map)
    also have "\<dots> = rev (map color_a (rev (shapes ann)))"
      by (simp only: draw_shapes_visited_alpha)
    also have "\<dots> = map color_a (shapes ann)"
      by (simp add: rev_map)
    finally show ?thesis .
  qed
  then show ?thesis
    by (simp add: drawAnnotation_def Let_def case_prod_beta)
qed

lemma drawAnnotationGL2_alpha_kept:
  "map color_a (shapes (snd (drawAnnotationGL2 v cf gp gn ann))) = map color_a (shapes ann)"
  by (simp add: drawAnnotationGL2_def Let_def case_prod_beta draw_shapesGL2_visited_alpha)


lemma drawAnnotations_loop_alpha_kept:
  "stored_alphas (snd (snd (drawAnnotations_loop v cf gp gn mvp as))) = stored_alphas as"
proof (induction as arbitrary: mvp)
  case Nil
  then show ?case by (simp add: stored_alphas_def)
next
  case (Cons a as)
  obtain m1 c1 a' where d: "drawAnnotation v cf gp gn mvp a = (m1, c1, a')"
    by (cases "drawAnnotation v cf gp gn mvp a") auto
  obtain m2 c2 as' where l: "drawAnnotations_loop v cf gp gn m1 as = (m2, c2, as')"
    by (cases "drawAnnotations_loop v cf gp gn m1 as") auto
  have "map color_a (shapes a') = map color_a (shapes a)"
    using drawAnnotation_alpha_kept [of v cf gp gn mvp a] d by simp
  moreover have "stored_alphas as' = stored_alphas as"
    using Cons.IH [of m1] l by simp
  ultimately show ?case
    using d l by (simp add: stored_alphas_def)
qed

lemma drawAnnotationsGL2_loop_alpha_kept:
  "stored_alphas (snd (drawAnnotationsGL2_loop v cf gp gn as)) = stored_alphas as"
proof (induction as)
  case Nil
  then show ?case by (simp add: stored_alphas_def)
next
  case (Cons a as)
  obtain c1 a' where d: "drawAnnotationGL2 v cf gp gn a = (c1, a')"
    by (cases "drawAnnotationGL2 v cf gp gn a") auto
  obtain c2 as' where l: "drawAnnotationsGL2_loop v cf gp gn as = (c2, as')"
    by (cases "drawAnnotationsGL2_loop v cf gp gn as") auto
  have "map color_a (shapes a') = map color_a (shapes a)"
    using drawAnnotationGL2_alpha_kept [of v cf gp gn a] d by simp
  moreover have "stored_alphas as' = stored_alphas as"
    using Cons.IH l by simp
  ultimately show ?case
    using d l by (simp add: stored_alphas_def)
qed

lemma drawAnnotations_alpha_kept:
  "map_option (stored_alphas \<circ> getAnnotations) (snd (snd (drawAnnotations v gp gn mvp player)))
   = map_option (stored_alphas \<circ> getAnnotations) player"
proof (cases player)
  case None
  then show ?thesis by (simp add: drawAnnotations_def)
next
  case (Some pl)
  obtain m c as' where l: "drawAnnotations_loop v (currentTime pl) gp gn mvp (getAnnotations pl) = (m, c, as')"
    by (cases "drawAnnotations_loop v (currentTime pl) gp gn mvp (getAnnotations pl)") auto
  have "stored_alphas as' = stored_alphas (getAnnotations pl)"
    using drawAnnotations_loop_alpha_kept [of v "currentTime pl" gp gn mvp "getAnnotations pl"] l
    by simp
  then show ?thesis using Some l by (simp add: drawAnnotations_def)
qed

lemma drawAnnotationsGL2_alpha_kept:
  "map_option (stored_alphas \<circ> getAnnotations) (snd (drawAnnotationsGL2 v gp gn player))
   = map_option (stored_alphas \<circ> getAnnotations) player"
proof (cases player)
  case None
  then show ?thesis by (simp add: drawAnnotationsGL2_def)
next
  case (Some pl)
  obtain c as' where l: "drawAnnotationsGL2_loop v (currentTime pl) gp gn (getAnnotations pl) = (c, as')"
    by (cases "drawAnnotationsGL2_loop v (currentTime pl) gp gn (getAnnotations pl)") auto
  have "stored_alphas as' = stored_alphas (getAnnotations pl)"
    using drawAnnotationsGL2_loop_alpha_kept [of v "currentTime pl" gp gn "getAnnotations pl"] l
    by simp
  then show ?thesis using Some l by (simp add: drawAnnotationsGL2_def)
qed

lemma draw_annotations_alpha_kept:
  "map_option (stored_alphas \<circ> getAnnotations) (snd (draw_annotations v rdy sh gp gn mvp player))
   = map_option (stored_alphas \<circ> getAnnotations) player"
proof -
  obtain m c1 p1 where a: "drawAnnotations v gp gn mvp player = (m, c1, p1)"
    by (cases "drawAnnotations v gp gn mvp player") auto
  have p1: "map_option (stored_alphas \<circ> getAnnotations) p1
            = map_option (stored_alphas \<circ> getAnnotations) player"
    using drawAnnotations_alpha_kept [of v gp gn mvp player] a by simp
  obtain c2 p2 where b: "drawAnnotationsGL2 v gp gn p1 = (c2, p2)"
    by (cases "drawAnnotationsGL2 v gp gn p1") auto
  have p2: "map_option (stored_alphas \<circ> getAnnotations) p2
            = map_option (stored_alphas \<circ> getAnnotations) p1"
    using drawAnnotationsGL2_alpha_kept [of v gp gn p1] b by simp
  obtain c2' p2' where b': "drawAnnotationsGL2 v gp gn player = (c2', p2')"
    by (cases "drawAnnotationsGL2 v gp gn player") auto
  have p2': "map_option (stored_alphas \<circ> getAnnotations) p2'
            = map_option (stored_alphas \<circ> getAnnotations) player"
    using drawAnnotationsGL2_alpha_kept [of v gp gn player] b' by simp
  show ?thesis
    using a b b' p1 p2 p2' by (simp add: draw_annotations_def)
qed


lemma drawAnnotation_calls_id:
  "alphamult cf gp gn ann \<noteq> 0 \<Longrightarrow>
   map shape_id (fst (snd (drawAnnotation v cf gp gn mvp ann))) =
     rev (map shape_id (filter (drawn_by_drawAnnotations v) (shapes ann)))"
  by (simp add: drawAnnotation_def Let_def case_prod_beta draw_shapes_calls_id rev_map rev_filter)

lemma drawAnnotation_calls_alpha:
  "map color_a (fst (snd (drawAnnotation v cf gp gn mvp ann))) =
     (if alphamult cf gp gn ann = 0 then []
      else map (\<lambda>s. color_a s * alphamult cf gp gn ann)
             (rev (filter (drawn_by_drawAnnotations v) (shapes ann))))"
  by (simp add: drawAnnotation_def Let_def case_prod_beta draw_shapes_calls_alpha rev_filter)

lemma drawAnnotationGL2_calls_id:
  "alphamult cf gp gn ann \<noteq> 0 \<Longrightarrow>
   map shape_id (fst (drawAnnotationGL2 v cf gp gn ann)) =
     map shape_id (filter is_GL2TextShape (shapes ann))"
  by (simp add: drawAnnotationGL2_def Let_def case_prod_beta draw_shapesGL2_calls_id)

lemma drawAnnotationGL2_calls_alpha:
  "map color_a (fst (drawAnnotationGL2 v cf gp gn ann)) =
     (if alphamult cf gp gn ann = 0 then []
      else map (\<lambda>s. color_a s * alphamult cf gp gn ann) (filter is_GL2TextShape (shapes ann)))"
  by (simp add: drawAnnotationGL2_def Let_def case_prod_beta draw_shapesGL2_calls_alpha)




text \<open>
  Claim C8, as amended. For an annotation with a nonzero multiplier, \<open>_drawAnnotations\<close>
  emits the shapes it draws in the exact reverse of their stored order: all the shapes when
  \<open>USE_OPENGL2\<close> is not defined, all but the \<open>GL2TextShape\<close>s when it is. The
  \<open>GL2TextShape\<close>s are emitted by \<open>_drawAnnotationsGL2\<close> in stored order.
\<close>

theorem reverse_shape_order:
  assumes "alphamult currentFrame ghostPrevious ghostNext annotation \<noteq> 0"
  shows
    "map shape_id (fst (snd (drawAnnotation v currentFrame ghostPrevious ghostNext mvp annotation)))
       = rev (map shape_id (filter (drawn_by_drawAnnotations v) (shapes annotation))) \<and>
     (\<not> use_opengl2 v \<longrightarrow>
        map shape_id (fst (snd (drawAnnotation v currentFrame ghostPrevious ghostNext mvp annotation)))
          = rev (map shape_id (shapes annotation))) \<and>
     map shape_id (fst (drawAnnotationGL2 v currentFrame ghostPrevious ghostNext annotation))
       = map shape_id (filter is_GL2TextShape (shapes annotation))"
  using assms drawAnnotation_calls_id [of currentFrame ghostPrevious ghostNext annotation v mvp]
    drawAnnotationGL2_calls_id [of currentFrame ghostPrevious ghostNext annotation v]
  by (simp add: drawn_by_drawAnnotations_def)

theorem reverse_shape_order_witness:
  "alphamult 10 0 0 (ex_annotation [ex_shape GLPathShape 1 1, ex_shape (GLTextShape ''a'') 2 1]) \<noteq> 0 \<and>
   \<not> use_opengl2 (ex_view False) \<and>
   map shape_id (fst (snd (drawAnnotation (ex_view False) 10 0 0 0
      (ex_annotation [ex_shape GLPathShape 1 1, ex_shape (GLTextShape ''a'') 2 1]))))
     = [(GLTextShape ''a'', 2), (GLPathShape, 1)]"
proof -
  let ?A = "ex_annotation [ex_shape GLPathShape 1 1, ex_shape (GLTextShape ''a'') 2 1]"
  have nz: "alphamult 10 0 0 ?A \<noteq> 0"
    by (simp add: alphamult_def ex_annotation_def)
  have ng: "\<not> use_opengl2 (ex_view False)"
    by (simp add: ex_view_def)
  have "map shape_id (fst (snd (drawAnnotation (ex_view False) 10 0 0 0 ?A)))
          = rev (map shape_id (shapes ?A))"
    using reverse_shape_order [OF nz, of "ex_view False" 0] ng by blast
  then show ?thesis
    using nz ng by (simp add: ex_annotation_def ex_shape_def shape_id_def)
qed

text \<open>
  Claim C8 as stated fails in a build with \<open>USE_OPENGL2\<close>: an annotation on the current
  frame with two \<open>GL2TextShape\<close>s has them drawn first-added first.
\<close>

theorem reverse_shape_order_counterexample:
  "alphamult 10 0 0 (ex_annotation [ex_shape GL2TextShape 1 1, ex_shape GL2TextShape 2 1]) \<noteq> 0 \<and>
   map shape_id (fst (draw_annotations (ex_view True) True True 0 0 0
      (Some \<lparr>currentTime = 10, getAnnotations =
         [ex_annotation [ex_shape GL2TextShape 1 1, ex_shape GL2TextShape 2 1]]\<rparr>)))
   \<noteq> rev (map shape_id (shapes (ex_annotation [ex_shape GL2TextShape 1 1, ex_shape GL2TextShape 2 1])))"
  by (simp add: alphamult_def ex_annotation_def ex_shape_def ex_view_def shape_id_def
        draw_annotations_def drawAnnotations_def drawAnnotationsGL2_def drawAnnotation_def
        drawAnnotationGL2_def is_GL2TextShape_def Let_def)

text \<open>
  Claim C9. Every draw call issued by \<open>_drawAnnotations\<close> and by \<open>_drawAnnotationsGL2\<close>
  carries the shape's stored alpha multiplied by the annotation's multiplier, and after
  the annotation pass of a frame every shape's stored alpha is what it was before.
\<close>

theorem transient_alpha:
  "map color_a (fst (snd (drawAnnotation v currentFrame ghostPrevious ghostNext mvp annotation)))
     = (if alphamult currentFrame ghostPrevious ghostNext annotation = 0 then []
        else map (\<lambda>s. color_a s * alphamult currentFrame ghostPrevious ghostNext annotation)
               (rev (filter (drawn_by_drawAnnotations v) (shapes annotation)))) \<and>
   map color_a (fst (drawAnnotationGL2 v currentFrame ghostPrevious ghostNext annotation))
     = (if alphamult currentFrame ghostPrevious ghostNext annotation = 0 then []
        else map (\<lambda>s. color_a s * alphamult currentFrame ghostPrevious ghostNext annotation)
               (filter is_GL2TextShape (shapes annotation))) \<and>
   map color_a (shapes (snd (snd (drawAnnotation v currentFrame ghostPrevious ghostNext mvp annotation))))
     = map color_a (shapes annotation) \<and>
   map color_a (shapes (snd (drawAnnotationGL2 v currentFrame ghostPrevious ghostNext annotation)))
     = map color_a (shapes annotation) \<and>
   map_option (stored_alphas \<circ> getAnnotations)
       (snd (draw_annotations v buffer_ready showAnnotations ghostPrevious ghostNext mvp player))
     = map_option (stored_alphas \<circ> getAnnotations) player"
  using drawAnnotation_calls_alpha [of v currentFrame ghostPrevious ghostNext mvp annotation]
    drawAnnotationGL2_calls_alpha [of v currentFrame ghostPrevious ghostNext annotation]
    drawAnnotation_alpha_kept [of v currentFrame ghostPrevious ghostNext mvp annotation]
    drawAnnotationGL2_alpha_kept [of v currentFrame ghostPrevious ghostNext annotation]
    draw_annotations_alpha_kept [of v buffer_ready showAnnotations ghostPrevious ghostNext mvp
      player]
  by simp


section \<open>Properties of the readback ring\<close>

lemma c_rem_succ_2: "i = 0 \<or> i = 1 \<Longrightarrow> c_rem (i + 1) 2 = 1 - i"
  by (auto simp: c_rem_def)


lemma unmapImage_unmapped: "gl_image gl = None \<Longrightarrow> unmapImage gl = gl"
  by (simp add: unmapImage_def)








text \<open>The selection block of \<open>draw\<close> leaves the ring as the two draw events say.\<close>

lemma draw_selection_ring:
  assumes "draw_selection ext cs bt tool fb selection gl info = Inr (gl', info')"
  shows "gl' = (if (min_x selection, min_y selection) \<noteq> (max_x selection, max_y selection)
                then ring_step (DrawSelection fb) gl else ring_step DrawNoSelection gl)"
  using assms
  by (auto simp: draw_selection_def Let_def bindReadImage_def unmapImage_def
           split: if_splits sum.splits)





section \<open>Properties of the pixel decoder\<close>

lemma u8_Some: "u8 d i = Some x \<Longrightarrow> x < 256"
proof -
  have "unat (w :: 8 word) < 256" for w
    using unsigned_less [of w, where ?'a = nat] by simp
  then show "u8 d i = Some x \<Longrightarrow> x < 256"
    by (auto simp: u8_def split: if_splits)
qed

lemma yuv_samples_normalized:
  assumes "yuv_samples t d w h depth off X Y c = Some yuv"
  shows "\<exists>y u v. y < 256 \<and> u < 256 \<and> v < 256 \<and>
           yuv = c\<lparr>ch_r := over y (yuv_max t), ch_g := over u (yuv_max t),
                   ch_b := over v (yuv_max t)\<rparr>"
proof -
  have step: "\<exists>y u v. y < 256 \<and> u < 256 \<and> v < 256 \<and>
           yuv = c\<lparr>ch_r := over y m, ch_g := over u m, ch_b := over v m\<rparr>"
    if "do { y \<leftarrow> u8 d i; u \<leftarrow> u8 d j; v \<leftarrow> u8 d k;
             Some (c\<lparr>ch_r := over y m, ch_g := over u m, ch_b := over v m\<rparr>) } = Some yuv"
    for i j k m
  proof -
    from that obtain y u v where "u8 d i = Some y" "u8 d j = Some u" "u8 d k = Some v"
      "yuv = c\<lparr>ch_r := over y m, ch_g := over u m, ch_b := over v m\<rparr>"
      by (auto split: Option.bind_splits)
    then show ?thesis using u8_Some by blast
  qed
  show ?thesis
  proof (cases t)
    case YUV_420P_U8
    with assms show ?thesis
      by (intro step [where m = "yuv_max t"]) (simp add: yuv_samples_def Let_def yuv_max_def)
  next
    case YUV_422P_U8
    with assms show ?thesis
      by (intro step [where m = "yuv_max t"]) (simp add: yuv_samples_def Let_def yuv_max_def)
  next
    case YUV_444P_U8
    with assms show ?thesis
      by (intro step [where m = "yuv_max t"]) (simp add: yuv_samples_def Let_def yuv_max_def)
  next
    case YUV_420P_U16
    with assms show ?thesis
      by (intro step [where m = "yuv_max t"]) (simp add: yuv_samples_def Let_def yuv_max_def)
  next
    case YUV_422P_U16
    with assms show ?thesis
      by (intro step [where m = "yuv_max t"]) (simp add: yuv_samples_def Let_def yuv_max_def)
  next
    case YUV_444P_U16
    with assms show ?thesis
      by (intro step [where m = "yuv_max t"]) (simp add: yuv_samples_def Let_def yuv_max_def)
  qed (use assms in \<open>simp_all add: yuv_samples_def\<close>)
qed

lemma probe_in_range_iff:
  "(probe_X mx img px < 0 \<or> probe_Y my img py < 0 \<or>
    probe_X mx img px \<ge> size_w img \<or> probe_Y my img py \<ge> size_h img)
   = (px < 0 \<or> py < 0 \<or> px \<ge> size_w img \<or> py \<ge> size_h img)"
  by (auto simp: probe_X_def probe_Y_def Let_def)

text \<open>
  Claim C6. \<open>_getPixelValue\<close> reflects the coordinate as \<open>size - coord - 1\<close> on each
  mirrored axis (the row having first been counted from the other edge of the image), and
  when the resulting \<open>(X, Y)\<close> is outside \<open>0 \<le> X < w\<close>, \<open>0 \<le> Y < h\<close> it returns with
  \<open>rgba\<close> unchanged and without reading the buffer. This is the case exactly when the
  probe position itself is outside the image.
\<close>

theorem out_of_range_noop:
  assumes "X = probe_X mirror_x img pos_x" and "Y = probe_Y mirror_y img pos_y"
    and "X < 0 \<or> Y < 0 \<or> X \<ge> size_w img \<or> Y \<ge> size_h img"
  shows "X = (if mirror_x then size_w img - pos_x - 1 else pos_x) \<and>
         Y = (if mirror_y then size_h img - (size_h img - pos_y - 1) - 1
              else size_h img - pos_y - 1) \<and>
         (pos_x < 0 \<or> pos_y < 0 \<or> pos_x \<ge> size_w img \<or> pos_y \<ge> size_h img) \<and>
         getPixelValue ext mirror_x mirror_y rgba img pos_x pos_y = Some rgba"
proof -
  have "getPixelValue ext mirror_x mirror_y rgba img pos_x pos_y = Some rgba"
    using assms by (simp add: getPixelValue_def Let_def)
  moreover have "pos_x < 0 \<or> pos_y < 0 \<or> pos_x \<ge> size_w img \<or> pos_y \<ge> size_h img"
    using assms probe_in_range_iff [of mirror_x img pos_x mirror_y pos_y] by blast
  ultimately show ?thesis
    using assms(1,2) by (simp add: probe_X_def probe_Y_def Let_def)
qed

theorem out_of_range_noop_witness:
  "probe_X True (ex_image RGB_U8 2 2 []) 5 < 0 \<and>
   getPixelValue ex_ext True False ex_rgba (ex_image RGB_U8 2 2 []) 5 0 = Some ex_rgba"
proof -
  have h: "probe_X True (ex_image RGB_U8 2 2 []) 5 < 0"
    by (simp add: probe_X_def ex_image_def)
  then have "probe_X True (ex_image RGB_U8 2 2 []) 5 < 0 \<or>
             probe_Y False (ex_image RGB_U8 2 2 []) 0 < 0 \<or>
             probe_X True (ex_image RGB_U8 2 2 []) 5 \<ge> size_w (ex_image RGB_U8 2 2 []) \<or>
             probe_Y False (ex_image RGB_U8 2 2 []) 0 \<ge> size_h (ex_image RGB_U8 2 2 [])"
    by blast
  from out_of_range_noop [OF refl refl this, of ex_ext ex_rgba] h show ?thesis by blast
qed

text \<open>
  Claim C7. For each of the six YUV formats and an in-range position, the result of
  \<open>_getPixelValue\<close> is \<open>to_rgb (checkLevels yuv videoLevels) yuvCoefficients\<close>, where
  \<open>yuv\<close> holds the three samples divided by the case's maximum and alpha 1: the levels
  correction is applied first, the colour matrix second.
\<close>

theorem yuv_conversion_order:
  assumes "is_yuv (pixelType img)"
    and "X = probe_X mirror_x img pos_x" and "Y = probe_Y mirror_y img pos_y"
    and "0 \<le> X" and "X < size_w img" and "0 \<le> Y" and "Y < size_h img"
    and "depth = getBitDepth (pixelType img) div 8"
  shows "getPixelValue ext mirror_x mirror_y rgba img pos_x pos_y =
           map_option
             (\<lambda>yuv. to_rgb ext (checkLevels ext yuv (videoLevels img))
                      (getYUVCoefficients ext (yuvCoefficients img)))
             (yuv_samples (pixelType img) (data img) (size_w img) (size_h img) depth
                ((Y * size_w img + X) * depth) X Y (rgba\<lparr>ch_a := Value 1\<rparr>)) \<and>
         (\<forall>yuv. yuv_samples (pixelType img) (data img) (size_w img) (size_h img) depth
                  ((Y * size_w img + X) * depth) X Y (rgba\<lparr>ch_a := Value 1\<rparr>) = Some yuv \<longrightarrow>
                (\<exists>y u v. yuv = rgba\<lparr>ch_a := Value 1,
                                       ch_r := over y (yuv_max (pixelType img)),
                                       ch_g := over u (yuv_max (pixelType img)),
                                       ch_b := over v (yuv_max (pixelType img))\<rparr>))"
proof -
  have g: "getPixelValue ext mirror_x mirror_y rgba img pos_x pos_y =
        decode_switch ext img depth ((Y * size_w img + X) * depth) X Y (rgba\<lparr>ch_a := Value 1\<rparr>)"
    using assms by (simp add: getPixelValue_def Let_def)
  have "decode_switch ext img depth off X Y c =
           map_option
             (\<lambda>yuv. to_rgb ext (checkLevels ext yuv (videoLevels img))
                      (getYUVCoefficients ext (yuvCoefficients img)))
             (yuv_samples (pixelType img) (data img) (size_w img) (size_h img) depth
                off X Y c)" for off c
  proof -
    consider "pixelType img = YUV_420P_U8" | "pixelType img = YUV_422P_U8"
      | "pixelType img = YUV_444P_U8" | "pixelType img = YUV_420P_U16"
      | "pixelType img = YUV_422P_U16" | "pixelType img = YUV_444P_U16"
      using assms(1) by (auto simp: is_yuv_def)
    then show ?thesis
    proof cases
      case 1 then show ?thesis
        by (cases "yuv_samples YUV_420P_U8 (data img) (size_w img) (size_h img) depth off X Y c")
           (simp_all add: decode_switch_def)
    next
      case 2 then show ?thesis
        by (cases "yuv_samples YUV_422P_U8 (data img) (size_w img) (size_h img) depth off X Y c")
           (simp_all add: decode_switch_def)
    next
      case 3 then show ?thesis
        by (cases "yuv_samples YUV_444P_U8 (data img) (size_w img) (size_h img) depth off X Y c")
           (simp_all add: decode_switch_def)
    next
      case 4 then show ?thesis
        by (cases "yuv_samples YUV_420P_U16 (data img) (size_w img) (size_h img) depth off X Y c")
           (simp_all add: decode_switch_def)
    next
      case 5 then show ?thesis
        by (cases "yuv_samples YUV_422P_U16 (data img) (size_w img) (size_h img) depth off X Y c")
           (simp_all add: decode_switch_def)
    next
      case 6 then show ?thesis
        by (cases "yuv_samples YUV_444P_U16 (data img) (size_w img) (size_h img) depth off X Y c")
           (simp_all add: decode_switch_def)
    qed
  qed
  with g have first: "getPixelValue ext mirror_x mirror_y rgba img pos_x pos_y =
           map_option
             (\<lambda>yuv. to_rgb ext (checkLevels ext yuv (videoLevels img))
                      (getYUVCoefficients ext (yuvCoefficients img)))
             (yuv_samples (pixelType img) (data img) (size_w img) (size_h img) depth
                ((Y * size_w img + X) * depth) X Y (rgba\<lparr>ch_a := Value 1\<rparr>))"
    by simp
  have second: "\<exists>y u v. yuv = rgba\<lparr>ch_a := Value 1,
                                       ch_r := over y (yuv_max (pixelType img)),
                                       ch_g := over u (yuv_max (pixelType img)),
                                       ch_b := over v (yuv_max (pixelType img))\<rparr>"
    if "yuv_samples (pixelType img) (data img) (size_w img) (size_h img) depth
          ((Y * size_w img + X) * depth) X Y (rgba\<lparr>ch_a := Value 1\<rparr>) = Some yuv" for yuv
    using yuv_samples_normalized [OF that] by blast
  show ?thesis using first second by blast
qed

theorem yuv_conversion_order_witness:
  "is_yuv (pixelType (ex_image YUV_444P_U8 1 1 [16, 128, 128])) \<and>
   getPixelValue ex_order_ext False False ex_rgba (ex_image YUV_444P_U8 1 1 [16, 128, 128]) 0 0
     = Some \<lparr>ch_r = Value 2, ch_g = Value (128 / 255), ch_b = Value (128 / 255),
             ch_a = Value 2\<rparr>"
proof -
  let ?img = "ex_image YUV_444P_U8 1 1 [16, 128, 128]"
  have t: "is_yuv (pixelType ?img)" by (simp add: ex_image_def is_yuv_def)
  have x: "probe_X False ?img 0 = 0" by (simp add: probe_X_def)
  have y: "probe_Y False ?img 0 = 0" by (simp add: probe_Y_def ex_image_def)
  have r: "0 \<le> probe_X False ?img 0" "probe_X False ?img 0 < size_w ?img"
    "0 \<le> probe_Y False ?img 0" "probe_Y False ?img 0 < size_h ?img"
    by (simp_all add: x y) (simp_all add: ex_image_def)
  note th = yuv_conversion_order [OF t refl refl r refl, of ex_order_ext ex_rgba,
      THEN conjunct1, unfolded x y]
  have "getPixelValue ex_order_ext False False ex_rgba ?img 0 0
     = Some \<lparr>ch_r = Value 2, ch_g = Value (128 / 255), ch_b = Value (128 / 255),
             ch_a = Value 2\<rparr>"
    using th
    by (simp add: ex_image_def yuv_samples_def Let_def over_def ex_order_ext_def ex_rgba_def
          u8_def)
  then show ?thesis using t by simp
qed

text \<open>
  Claim C3 (every integer format divides the raw channel by its format maximum, 1023 for
  the packed fields of \<open>RGB_U10\<close>, so that full scale decodes to 1.0; half and float
  formats pass through) fails on the code. A 1 by 1 \<open>RGB_U10\<close> image whose three 10-bit fields are all
  1023 decodes to \<open>1023 / (2^32 - 1)\<close> on each channel, not to 1: the case divides by the
  maximum of \<open>uint32_t\<close>. A 1 by 1 \<open>L_F32\<close> image holding the float 1.0 leaves
  \<open>r\<close>, \<open>g\<close>, \<open>b\<close> as they were: the format has no \<open>case\<close>.
\<close>

theorem rgb_u10_full_scale:
  "getPixelValue ex_ext False False ex_rgba (ex_image RGB_U10 1 1 [255, 255, 255, 255]) 0 0
     = Some \<lparr>ch_r = Value (1023 / 4294967295), ch_g = Value (1023 / 4294967295),
             ch_b = Value (1023 / 4294967295), ch_a = Value 1\<rparr> \<and>
   Value (1023 / 4294967295) \<noteq> Value 1 \<and>
   getPixelValue ex_ext False False ex_rgba (ex_image L_F32 1 1 [0, 0, 128, 63]) 0 0
     = Some (ex_rgba\<lparr>ch_a := Value 1\<rparr>)"
  by (simp add: getPixelValue_def decode_switch_def probe_X_def probe_Y_def ex_image_def
        ex_rgba_def ex_ext_def is_yuv_def u32_def u8_def Let_def over_def uint32_max_def
        U10_r_def U10_g_def U10_b_def)

text \<open>
  The 16-bit YUV cases index \<open>data\<close>, a pointer to bytes, directly: a 1 by 1
  \<open>YUV_444P_U16\<close> image whose three samples are all 65535 decodes to \<open>255 / 65535\<close>.
\<close>

lemma yuv_u16_reads_bytes:
  "getPixelValue ex_ext False False ex_rgba
     (ex_image YUV_444P_U16 1 1 [255, 255, 255, 255, 255, 255]) 0 0
     = Some \<lparr>ch_r = Value (255 / 65535), ch_g = Value (255 / 65535),
             ch_b = Value (255 / 65535), ch_a = Value 1\<rparr>"
  by (simp add: getPixelValue_def decode_switch_def yuv_samples_def probe_X_def probe_Y_def
        ex_image_def ex_rgba_def ex_ext_def is_yuv_def Let_def over_def u8_def)

text \<open>
  Claim C4 as stated fails for an odd width: in a 3 by 3 \<open>YUV_420P_U8\<close> image the U sample
  of row 2, column 0 is read at index \<open>9 + 1 * 2 + 0 = 11\<close>, a chroma row being
  \<open>(3 + 1) / 2 = 2\<close> samples wide, not at \<open>9 + 1 * (3 / 2) + 0 = 10\<close>.
\<close>

theorem planar_yuv_addressing_counterexample:
  "map_option ch_g
     (getPixelValue ex_ext False False ex_rgba (ex_image YUV_420P_U8 3 3 ex_yuv_data) 0 0)
   \<noteq> map_option (\<lambda>u. over u 255)
       (u8 (data (ex_image YUV_420P_U8 3 3 ex_yuv_data))
          (claimed_U_index YUV_420P_U8 3 3
             (probe_X False (ex_image YUV_420P_U8 3 3 ex_yuv_data) 0)
             (probe_Y False (ex_image YUV_420P_U8 3 3 ex_yuv_data) 0)))"
  by (simp add: getPixelValue_def decode_switch_def yuv_samples_def probe_X_def probe_Y_def
        ex_image_def ex_rgba_def ex_ext_def is_yuv_def Let_def over_def ex_yuv_data_def
        claimed_U_index_def subX_def subY_def u8_def)

text \<open>
  Claim C4, as amended. For the 8-bit planar formats and an in-range \<open>(X, Y)\<close>, the luma
  sample is read at \<open>Y * w + X\<close> and the chroma samples at
  \<open>(Y / subY) * cw + X / subX\<close> within their planes, where a chroma plane is
  \<open>cw = (w + subX - 1) / subX\<close> samples wide and \<open>ch = (h + subY - 1) / subY\<close> rows
  high; the U plane starts at \<open>w * h\<close> and the V plane at \<open>w * h + cw * ch\<close>. When
  \<open>subX\<close> divides \<open>w\<close>, \<open>cw\<close> is \<open>w / subX\<close>.
\<close>

theorem planar_yuv_u8_addressing:
  assumes "t = pixelType img" and "t \<in> {YUV_420P_U8, YUV_422P_U8, YUV_444P_U8}"
    and "X = probe_X mirror_x img pos_x" and "Y = probe_Y mirror_y img pos_y"
    and "0 \<le> X" and "X < size_w img" and "0 \<le> Y" and "Y < size_h img"
    and "w = size_w img" and "h = size_h img"
  shows
    "getPixelValue ext mirror_x mirror_y rgba img pos_x pos_y =
       do { y \<leftarrow> u8 (data img) (Y * w + X);
            u \<leftarrow> u8 (data img) (w * h + (Y div subY t) * chroma_w t w + X div subX t);
            v \<leftarrow> u8 (data img) (w * h + chroma_w t w * chroma_h t h
                                  + (Y div subY t) * chroma_w t w + X div subX t);
            Some (to_rgb ext
                    (checkLevels ext
                       (rgba\<lparr>ch_a := Value 1, ch_r := over y 255, ch_g := over u 255,
                              ch_b := over v 255\<rparr>)
                       (videoLevels img))
                    (getYUVCoefficients ext (yuvCoefficients img))) } \<and>
     (w mod subX t = 0 \<longrightarrow> chroma_w t w = w div subX t)"
proof -
  have sub: "w mod subX t = 0 \<longrightarrow> chroma_w t w = w div subX t"
    by (simp add: chroma_w_def subX_def) presburger
  consider "pixelType img = YUV_420P_U8" | "pixelType img = YUV_422P_U8"
    | "pixelType img = YUV_444P_U8"
    using assms(1,2) by auto
  then have "getPixelValue ext mirror_x mirror_y rgba img pos_x pos_y =
       do { y \<leftarrow> u8 (data img) (Y * w + X);
            u \<leftarrow> u8 (data img) (w * h + (Y div subY t) * chroma_w t w + X div subX t);
            v \<leftarrow> u8 (data img) (w * h + chroma_w t w * chroma_h t h
                                  + (Y div subY t) * chroma_w t w + X div subX t);
            Some (to_rgb ext
                    (checkLevels ext
                       (rgba\<lparr>ch_a := Value 1, ch_r := over y 255, ch_g := over u 255,
                              ch_b := over v 255\<rparr>)
                       (videoLevels img))
                    (getYUVCoefficients ext (yuvCoefficients img))) }"
  proof cases
    case 1
    with assms show ?thesis
      by (simp add: getPixelValue_def decode_switch_def yuv_samples_def is_yuv_def Let_def
            subX_def subY_def chroma_w_def chroma_h_def algebra_simps)
  next
    case 2
    with assms show ?thesis
      by (simp add: getPixelValue_def decode_switch_def yuv_samples_def is_yuv_def Let_def
            subX_def subY_def chroma_w_def chroma_h_def algebra_simps)
  next
    case 3
    with assms show ?thesis
      by (simp add: getPixelValue_def decode_switch_def yuv_samples_def is_yuv_def Let_def
            subX_def subY_def chroma_w_def chroma_h_def algebra_simps)
  qed
  with sub show ?thesis by blast
qed

theorem planar_yuv_u8_addressing_witness:
  "YUV_420P_U8 \<in> {YUV_420P_U8, YUV_422P_U8, YUV_444P_U8} \<and>
   0 \<le> probe_X False (ex_image YUV_420P_U8 3 3 ex_yuv_data) 0 \<and>
   probe_Y False (ex_image YUV_420P_U8 3 3 ex_yuv_data) 0 = 2 \<and>
   getPixelValue ex_ext False False ex_rgba (ex_image YUV_420P_U8 3 3 ex_yuv_data) 0 0 =
     Some \<lparr>ch_r = Value 0, ch_g = Value 1, ch_b = Value 0, ch_a = Value 1\<rparr>"
proof -
  let ?img = "ex_image YUV_420P_U8 3 3 ex_yuv_data"
  have t: "YUV_420P_U8 = pixelType ?img" by (simp add: ex_image_def)
  have m: "YUV_420P_U8 \<in> {YUV_420P_U8, YUV_422P_U8, YUV_444P_U8}" by simp
  have x: "probe_X False ?img 0 = 0" by (simp add: probe_X_def)
  have y: "probe_Y False ?img 0 = 2" by (simp add: probe_Y_def ex_image_def)
  have w: "3 = size_w ?img" and h: "3 = size_h ?img" by (simp_all add: ex_image_def)
  have r: "0 \<le> probe_X False ?img 0" "probe_X False ?img 0 < size_w ?img"
    "0 \<le> probe_Y False ?img 0" "probe_Y False ?img 0 < size_h ?img"
    by (simp_all add: x y) (simp_all add: ex_image_def)
  note th = planar_yuv_u8_addressing [OF t m refl refl r w h, of ex_ext ex_rgba,
      THEN conjunct1, unfolded x y]
  have "getPixelValue ex_ext False False ex_rgba ?img 0 0 =
     Some \<lparr>ch_r = Value 0, ch_g = Value 1, ch_b = Value 0, ch_a = Value 1\<rparr>"
    using th
    by (simp add: ex_image_def ex_yuv_data_def subX_def subY_def chroma_w_def chroma_h_def
          over_def ex_ext_def ex_rgba_def u8_def)
  then show ?thesis using m x y by simp
qed


section \<open>Properties of the colour area statistics\<close>

lemma for_each_no_columns: "for_each (\<lambda>Y. for_each (body Y) []) ys s = Some s"
  by (induction ys) simp_all

lemma for_each_invariant:
  assumes "for_each body xs s = Some s'"
    and "\<And>x t t'. body x t = Some t' \<Longrightarrow> P t \<Longrightarrow> P t'"
    and "P s"
  shows "P s'"
  using assms(1,3)
proof (induction xs arbitrary: s)
  case Nil
  then show ?case by simp
next
  case (Cons x xs)
  then obtain t where t: "body x s = Some t" "for_each body xs t = Some s'"
    by (auto split: option.splits)
  from assms(2) [OF t(1) Cons.prems(2)] have "P t" .
  with Cons.IH t(2) show ?case by blast
qed

lemma sample_pixel_box:
  "sample_pixel ext cs bt buf w Y X info = Some info' \<Longrightarrow> info_box info' = info_box info"
  by (auto simp: sample_pixel_def Let_def split: Option.bind_splits)

lemma sample_loops_box:
  assumes "for_each (\<lambda>Y. for_each (sample_pixel ext cs bt buf w Y) xs) ys info = Some info'"
  shows "info_box info' = info_box info"
proof -
  have row: "info_box t' = b" if "for_each (sample_pixel ext cs bt buf w Y) xs t = Some t'"
    and "info_box t = b" for Y t t' b
    using for_each_invariant [OF that(1), where P = "\<lambda>i. info_box i = b"] that(2)
      sample_pixel_box by metis
  show ?thesis
    using for_each_invariant [OF assms, where P = "\<lambda>i. info_box i = info_box info"] row
    by blast
qed

lemma normalized_box:
  "min_x (normalized sel) = min (min_x sel) (max_x sel)"
  "max_x (normalized sel) = max (min_x sel) (max_x sel)"
  "min_y (normalized sel) = min (min_y sel) (max_y sel)"
  "max_y (normalized sel) = max (min_y sel) (max_y sel)"
  by (auto simp: normalized_def Let_def)

lemma mapped_buffer_bindReadImage:
  "mapped_buffer (bindReadImage fb gl) \<noteq> None"
  by (simp add: mapped_buffer_def bindReadImage_def Let_def)

text \<open>
  Whether the division of the means by \<open>num\<close> can be a division by zero is decided by
  \<open>BBox2i::w()\<close> and \<open>BBox2i::h()\<close>. If they are \<open>max - min\<close>, a selection of zero
  width or zero height whose corners differ passes the test at the call site and the
  means are divided by zero. If they count both corners, \<open>num\<close> is positive for every
  selection once its corners are ordered, and no division by zero occurs.
\<close>

lemma exclusive_extent_divides_by_zero:
  assumes w: "\<And>b. box_w ext b = extent_exclusive (min_x b) (max_x b)"
    and h: "\<And>b. box_h ext b = extent_exclusive (min_y b) (max_y b)"
    and "(min_x selection, min_y selection) \<noteq> (max_x selection, max_y selection)"
    and "min_x selection = max_x selection \<or> min_y selection = max_y selection"
  shows "draw_selection ext cs bt True framebuffer selection gl colorAreaInfo
           = Inl DivisionByZero"
proof -
  let ?gl = "bindReadImage framebuffer gl"
  let ?info = "colorAreaInfo\<lparr>info_box := normalized selection\<rparr>"
  let ?info1 = "?info\<lparr>info_rgba := reset_stats (info_rgba ?info),
                       info_hsv := reset_stats (info_hsv ?info)\<rparr>"
  obtain buf where b: "mapped_buffer ?gl = Some buf"
    using mapped_buffer_bindReadImage [of framebuffer gl] by auto
  have d: "min_x (normalized selection) = max_x (normalized selection) \<or>
           min_y (normalized selection) = max_y (normalized selection)"
    using assms(4) by (auto simp: normalized_box)
  have loop: "for_each
                (\<lambda>Y. for_each (sample_pixel ext cs bt buf (renderSize_w ?gl) Y)
                        [box_x (info_box ?info1) .. max_x (info_box ?info1) - 1])
                [box_y (info_box ?info1) .. max_y (info_box ?info1) - 1] ?info1 = Some ?info1"
  proof (cases "min_x (normalized selection) = max_x (normalized selection)")
    case True
    then have "[box_x (info_box ?info1) .. max_x (info_box ?info1) - 1] = []"
      by (simp add: box_x_def)
    then show ?thesis by (simp add: for_each_no_columns)
  next
    case False
    with d have "[box_y (info_box ?info1) .. max_y (info_box ?info1) - 1] = []"
      by (simp add: box_y_def)
    then show ?thesis by simp
  qed
  have num: "box_w ext (info_box ?info1) * box_h ext (info_box ?info1) = 0"
    using d by (auto simp: w h extent_exclusive_def)
  have "calculateColorArea ext cs bt ?gl ?info = Inl DivisionByZero"
    using b loop num by (simp add: calculateColorArea_def Let_def)
  then show ?thesis
    using assms(3) by (simp add: draw_selection_def Let_def)
qed

lemma inclusive_extent_never_divides_by_zero:
  assumes w: "\<And>b. box_w ext b = extent_inclusive (min_x b) (max_x b)"
    and h: "\<And>b. box_h ext b = extent_inclusive (min_y b) (max_y b)"
  shows "draw_selection ext cs bt colorAreaTool framebuffer selection gl colorAreaInfo
           \<noteq> Inl DivisionByZero"
proof (cases "(min_x selection, min_y selection) \<noteq> (max_x selection, max_y selection)")
  case False
  then show ?thesis
    by (auto simp: draw_selection_def Let_def calculateColorArea_def mapped_buffer_def)
next
  case True
  let ?gl = "bindReadImage framebuffer gl"
  let ?info = "colorAreaInfo\<lparr>info_box := normalized selection\<rparr>"
  have pos: "box_w ext (normalized selection) * box_h ext (normalized selection) \<noteq> 0"
  proof -
    have "0 < box_w ext (normalized selection)" "0 < box_h ext (normalized selection)"
      by (simp_all add: w h extent_inclusive_def normalized_box)
    then show ?thesis by simp
  qed
  have "calculateColorArea ext cs bt ?gl ?info \<noteq> Inl DivisionByZero"
  proof -
    obtain buf where b: "mapped_buffer ?gl = Some buf"
      using mapped_buffer_bindReadImage [of framebuffer gl] by auto
    let ?info1 = "?info\<lparr>info_rgba := reset_stats (info_rgba ?info),
                         info_hsv := reset_stats (info_hsv ?info)\<rparr>"
    let ?loop = "for_each
                (\<lambda>Y. for_each (sample_pixel ext cs bt buf (renderSize_w ?gl) Y)
                        [box_x (info_box ?info1) .. max_x (info_box ?info1) - 1])
                [box_y (info_box ?info1) .. max_y (info_box ?info1) - 1] ?info1"
    show ?thesis
    proof (cases ?loop)
      case None
      with b show ?thesis by (simp add: calculateColorArea_def Let_def)
    next
      case (Some info2)
      then have "info_box info2 = info_box ?info1" by (rule sample_loops_box)
      then have "box_w ext (info_box info2) * box_h ext (info_box info2) \<noteq> 0"
        using pos by simp
      with b Some show ?thesis by (simp add: calculateColorArea_def Let_def)
    qed
  qed
  then show ?thesis
    using True by (auto simp: draw_selection_def Let_def split: sum.splits)
qed

text \<open>
  Claim C10. With no buffer mapped (\<open>gl.image\<close> null) \<open>_calculateColorArea\<close> returns the
  record it was given, every statistic unchanged. In \<open>draw\<close> this is what happens for an
  empty selection (\<open>selection.min == selection.max\<close>): only the box of the record is
  overwritten.
\<close>

theorem no_image_keeps_statistics:
  "(gl_image gl = None \<longrightarrow>
      calculateColorArea ext hsv_colorspace brightness_type gl info = Inr info) \<and>
   ((min_x selection, min_y selection) = (max_x selection, max_y selection) \<longrightarrow>
      draw_selection ext hsv_colorspace brightness_type colorAreaTool framebuffer selection gl
        info = Inr (gl\<lparr>gl_image := None\<rparr>, info\<lparr>info_box := selection\<rparr>))"
  by (auto simp: calculateColorArea_def mapped_buffer_def draw_selection_def Let_def)

theorem no_image_keeps_statistics_witness:
  "gl_image ex_gl = None \<and>
   calculateColorArea ex_area_ext kHSV () ex_gl ex_info = Inr ex_info \<and>
   draw_selection ex_area_ext kHSV () True [] \<lparr>min_x = 3, min_y = 4, max_x = 3, max_y = 4\<rparr>
     ex_gl ex_info
     = Inr (ex_gl\<lparr>gl_image := None\<rparr>,
            ex_info\<lparr>info_box := \<lparr>min_x = 3, min_y = 4, max_x = 3, max_y = 4\<rparr>\<rparr>)"
proof -
  have h: "gl_image ex_gl = None" by (simp add: ex_gl_def)
  from no_image_keeps_statistics [of ex_gl ex_area_ext kHSV "()" ex_info
      "\<lparr>min_x = 3, min_y = 4, max_x = 3, max_y = 4\<rparr>" True "[]"] h
  show ?thesis by simp
qed

end
